theory Spec2Isabelle
  imports Complex_Main "HOL-Library.Word" "HOL-Library.AList"
begin

section \<open>JavaScript strings and values\<close>

text \<open>
  A JavaScript string is a sequence of UTF-16 code units. The literals of the source are
  ASCII; \<open>str\<close> turns an ASCII literal into its code units.
\<close>

type_synonym jsstring = "16 word list"

definition str :: "string \<Rightarrow> jsstring" where
  "str s = map of_char s"

text \<open>
  A number is a double. Nothing below computes with numbers; only the truthiness test
  looks at one (zero and NaN are falsy), so a finite double is kept as the rational it
  denotes.
\<close>

datatype jsnum = NaN | Finite rat | PosInfinity | NegInfinity

datatype jsval =
    JUndefined
  | JNull
  | JBool bool
  | JNum jsnum
  | JStr jsstring
  | JArr "jsval list"
  | JObj "(jsstring \<times> jsval) list"

text \<open>What \<^verbatim>\<open>if (v)\<close> and \<^verbatim>\<open>!v\<close> test.\<close>

fun truthy :: "jsval \<Rightarrow> bool" where
  "truthy JUndefined = False"
| "truthy JNull = False"
| "truthy (JBool b) = b"
| "truthy (JNum n) = (case n of NaN \<Rightarrow> False | Finite q \<Rightarrow> q \<noteq> 0 | PosInfinity \<Rightarrow> True | NegInfinity \<Rightarrow> True)"
| "truthy (JStr s) = (s \<noteq> [])"
| "truthy (JArr xs) = True"
| "truthy (JObj kvs) = True"

text \<open>
  \<^verbatim>\<open>v?.key\<close> for the two keys the source reads (\<^verbatim>\<open>whep_url\<close>, \<^verbatim>\<open>stream_id\<close>): an own
  property of an object, and \<^verbatim>\<open>undefined\<close> on every other value (no prototype carries
  these keys).
\<close>

fun opt_member :: "jsval \<Rightarrow> jsstring \<Rightarrow> jsval" where
  "opt_member (JObj kvs) k = (case map_of kvs k of Some v \<Rightarrow> v | None \<Rightarrow> JUndefined)"
| "opt_member v k = JUndefined"

text \<open>\<^verbatim>\<open>v ?? d\<close>\<close>

definition nullish :: "jsval \<Rightarrow> jsval \<Rightarrow> jsval" where
  "nullish v d = (if v = JUndefined \<or> v = JNull then d else v)"

text \<open>
  The value of a variable of type \<^verbatim>\<open>string | null\<close> is a \<open>jsstring option\<close>; it is truthy
  when it holds a non-empty string.
\<close>

definition truthy_id :: "jsstring option \<Rightarrow> bool" where
  "truthy_id v = (case v of None \<Rightarrow> False | Some s \<Rightarrow> s \<noteq> [])"

text \<open>
  A field the interface \<^verbatim>\<open>LivepeerStreamStartResponse\<close> declares as a string, read from a
  parsed JSON value (a value of another kind is outside the declared type).
\<close>

fun as_string :: "jsval \<Rightarrow> jsstring option" where
  "as_string (JStr s) = Some s"
| "as_string v = None"

datatype js_error =
    Error jsstring
  | SyntaxError
  | URIError
  | OtherError jsstring

text \<open>The decimal digits of a number in a template literal (\<^verbatim>\<open>${response.status}\<close>).\<close>

fun dec :: "nat \<Rightarrow> jsstring" where
  "dec n = (if n < 10 then [of_nat (48 + n)] else dec (n div 10) @ [of_nat (48 + n mod 10)])"

declare dec.simps [simp del]

section \<open>encodeURIComponent\<close>

text \<open>
  The built-in of ECMAScript (ECMA-262, Encode with the unreserved set of
  \<^verbatim>\<open>encodeURIComponent\<close>): letters, digits and the marks \<^verbatim>\<open>- _ . ! ~ * ' ( )\<close> stay; every
  other code point is written as the percent-escaped octets of its UTF-8 encoding; an
  unpaired surrogate throws URIError.
\<close>

definition uriMark :: jsstring where
  "uriMark = str ''-_.!~*()'' @ [0x27]"

definition uriUnescaped :: "16 word \<Rightarrow> bool" where
  "uriUnescaped c =
     ((0x41 \<le> c \<and> c \<le> 0x5A) \<or> (0x61 \<le> c \<and> c \<le> 0x7A) \<or> (0x30 \<le> c \<and> c \<le> 0x39)
      \<or> c \<in> set uriMark)"

definition is_lead :: "16 word \<Rightarrow> bool" where
  "is_lead c = (0xD800 \<le> c \<and> c \<le> 0xDBFF)"

definition is_trail :: "16 word \<Rightarrow> bool" where
  "is_trail c = (0xDC00 \<le> c \<and> c \<le> 0xDFFF)"

definition pair_code_point :: "16 word \<Rightarrow> 16 word \<Rightarrow> nat" where
  "pair_code_point l t = (unat l - 0xD800) * 0x400 + (unat t - 0xDC00) + 0x10000"

definition utf8_octets :: "nat \<Rightarrow> nat list" where
  "utf8_octets cp =
     (if cp < 0x80 then [cp]
      else if cp < 0x800 then [0xC0 + cp div 0x40, 0x80 + cp mod 0x40]
      else if cp < 0x10000 then
        [0xE0 + cp div 0x1000, 0x80 + (cp div 0x40) mod 0x40, 0x80 + cp mod 0x40]
      else
        [0xF0 + cp div 0x40000, 0x80 + (cp div 0x1000) mod 0x40,
         0x80 + (cp div 0x40) mod 0x40, 0x80 + cp mod 0x40])"

definition hex_digit :: "nat \<Rightarrow> 16 word" where
  "hex_digit n = (if n mod 16 < 10 then of_nat (0x30 + n mod 16) else of_nat (0x41 + (n mod 16 - 10)))"

definition percent_octet :: "nat \<Rightarrow> jsstring" where
  "percent_octet b = [0x25, hex_digit (b div 16), hex_digit b]"

definition percent_encode :: "nat \<Rightarrow> jsstring" where
  "percent_encode cp = concat (map percent_octet (utf8_octets cp))"

definition prepend :: "jsstring \<Rightarrow> js_error + jsstring \<Rightarrow> js_error + jsstring" where
  "prepend xs r = (case r of Inl e \<Rightarrow> Inl e | Inr ys \<Rightarrow> Inr (xs @ ys))"

fun encodeURIComponent :: "jsstring \<Rightarrow> js_error + jsstring" where
  "encodeURIComponent [] = Inr []"
| "encodeURIComponent (c # cs) =
     (if uriUnescaped c then prepend [c] (encodeURIComponent cs)
      else if is_trail c then Inl URIError
      else if is_lead c then
        (case cs of
           [] \<Rightarrow> Inl URIError
         | d # ds \<Rightarrow>
             if is_trail d then prepend (percent_encode (pair_code_point c d)) (encodeURIComponent ds)
             else Inl URIError)
      else prepend (percent_encode (unat c)) (encodeURIComponent cs))"

section \<open>The API client (lib/api)\<close>

datatype http_method = GET | POST

text \<open>A request body is always \<^verbatim>\<open>JSON.stringify(v)\<close>; it is kept as the value \<open>v\<close>.\<close>

datatype body = JSON_stringify jsval

record request =
  req_method :: http_method
  req_url :: jsstring
  req_headers :: "(jsstring \<times> jsstring) list"
  req_body :: "body option"

record response =
  status :: nat
  statusText :: jsstring
  body_text :: jsstring

text \<open>\<^verbatim>\<open>response.ok\<close>: the status is in the range 200 to 299.\<close>

definition ok :: "response \<Rightarrow> bool" where
  "ok r = (200 \<le> status r \<and> status r \<le> 299)"

text \<open>
  What the code does not decide: the answer of the network to a request (a rejected
  \<^verbatim>\<open>fetch\<close> or a response), \<^verbatim>\<open>JSON.parse\<close> (None: SyntaxError), and which operations of
  the browser's WebRTC stack throw.
\<close>

datatype rtc_op =
    NewPeerConnection
  | CreateDataChannel
  | AddTrack
  | AddTransceiver
  | CreateOffer
  | SetLocalDescription
  | ReplaceTrack

record env =
  fetch :: "request \<Rightarrow> js_error + response"
  JSON_parse :: "jsstring \<Rightarrow> jsval option"
  rtc_fails :: "rtc_op \<Rightarrow> js_error option"

text \<open>
  The effects a caller can observe, in the order they happen: a request handed to
  \<^verbatim>\<open>fetch\<close>, a call of \<^verbatim>\<open>setLivepeerStreamId\<close>, a message handed to the data channel's
  \<^verbatim>\<open>send\<close>.
\<close>

datatype event =
    EvFetch request
  | EvSetStreamId "jsstring option"
  | EvSend body

text \<open>The module's state: \<^verbatim>\<open>let livepeerStreamId: string | null = null\<close>, and the effects so far.\<close>

record api_state =
  livepeerStreamId :: "jsstring option"
  trace :: "event list"

type_synonym result = "js_error + jsval"

definition setLivepeerStreamId :: "jsstring option \<Rightarrow> 'a api_state_scheme \<Rightarrow> 'a api_state_scheme" where
  "setLivepeerStreamId v s = s\<lparr>livepeerStreamId := v, trace := trace s @ [EvSetStreamId v]\<rparr>"

definition json_headers :: "(jsstring \<times> jsstring) list" where
  "json_headers = [(str ''Content-Type'', str ''application/json'')]"

text \<open>
  \<^verbatim>\<open>`${label}: ${response.status} ${response.statusText}: ${errorText}`\<close>, the message
  of the Error every call throws on a response that is not ok.
\<close>

definition failure_message :: "jsstring \<Rightarrow> response \<Rightarrow> jsstring" where
  "failure_message label r =
     label @ str '': '' @ dec (status r) @ str '' '' @ statusText r @ str '': '' @ body_text r"

text \<open>The request \<^verbatim>\<open>forwardLivepeerRequest\<close> hands to \<^verbatim>\<open>fetch\<close>, given the encoded stream id.\<close>

definition relay_update_request :: "jsstring \<Rightarrow> jsstring \<Rightarrow> jsval \<Rightarrow> request" where
  "relay_update_request enc route payload =
     \<lparr>req_method = POST,
      req_url = str ''/ai/stream/'' @ enc @ str ''/update'',
      req_headers = json_headers,
      req_body = Some (JSON_stringify (JObj [(str ''route'', JStr route), (str ''request'', payload)]))\<rparr>"

definition forwardLivepeerRequest ::
  "env \<Rightarrow> jsstring \<Rightarrow> jsstring \<Rightarrow> jsval \<Rightarrow> 'a api_state_scheme \<Rightarrow> result \<times> 'a api_state_scheme" where
  "forwardLivepeerRequest E streamId route payload s =
     (case encodeURIComponent streamId of
        Inl e \<Rightarrow> (Inl e, s)
      | Inr enc \<Rightarrow>
          let req = relay_update_request enc route payload;
              s' = s\<lparr>trace := trace s @ [EvFetch req]\<rparr>
          in case fetch E req of
               Inl e \<Rightarrow> (Inl e, s')
             | Inr r \<Rightarrow>
                 if \<not> ok r then (Inl (Error (failure_message (str ''Livepeer update failed'') r)), s')
                 else if body_text r = [] then (Inr JNull, s')
                 else (case JSON_parse E (body_text r) of
                         Some v \<Rightarrow> (Inr v, s')
                       | None \<Rightarrow> (Inr (JStr (body_text r)), s')))"

definition withLivepeerRoute ::
  "env \<Rightarrow> jsstring \<Rightarrow> jsval \<Rightarrow> ('a api_state_scheme \<Rightarrow> result \<times> 'a api_state_scheme)
   \<Rightarrow> 'a api_state_scheme \<Rightarrow> result \<times> 'a api_state_scheme" where
  "withLivepeerRoute E route requestBody fetcher s =
     (case livepeerStreamId s of
        None \<Rightarrow> fetcher s
      | Some sid \<Rightarrow>
          if sid \<noteq> [] then forwardLivepeerRequest E sid route (nullish requestBody JNull) s
          else fetcher s)"

text \<open>
  The fetcher every eligible call passes to \<^verbatim>\<open>withLivepeerRoute\<close>: the seven closures of
  the source differ in the request and in the label of the error only.
\<close>

definition backend_fetch ::
  "env \<Rightarrow> jsstring \<Rightarrow> request \<Rightarrow> 'a api_state_scheme \<Rightarrow> result \<times> 'a api_state_scheme" where
  "backend_fetch E label req s =
     (let s' = s\<lparr>trace := trace s @ [EvFetch req]\<rparr>
      in case fetch E req of
           Inl e \<Rightarrow> (Inl e, s')
         | Inr r \<Rightarrow>
             if \<not> ok r then (Inl (Error (failure_message label r)), s')
             else (case JSON_parse E (body_text r) of
                     None \<Rightarrow> (Inl SyntaxError, s')
                   | Some v \<Rightarrow> (Inr v, s')))"

definition post_json :: "jsstring \<Rightarrow> jsval \<Rightarrow> request" where
  "post_json url v =
     \<lparr>req_method = POST, req_url = url, req_headers = json_headers,
      req_body = Some (JSON_stringify v)\<rparr>"

definition get_json :: "jsstring \<Rightarrow> request" where
  "get_json url =
     \<lparr>req_method = GET, req_url = url, req_headers = json_headers, req_body = None\<rparr>"

definition sendWebRTCOffer :: "env \<Rightarrow> jsval \<Rightarrow> 'a api_state_scheme \<Rightarrow> result \<times> 'a api_state_scheme" where
  "sendWebRTCOffer E data =
     withLivepeerRoute E (str ''/api/v1/webrtc/offer'') data
       (backend_fetch E (str ''WebRTC offer failed'') (post_json (str ''/api/v1/webrtc/offer'') data))"

text \<open>\<^verbatim>\<open>data: PipelineLoadRequest = {}\<close>: an argument left out is the empty object.\<close>

definition loadPipeline :: "env \<Rightarrow> jsval \<Rightarrow> 'a api_state_scheme \<Rightarrow> result \<times> 'a api_state_scheme" where
  "loadPipeline E data0 =
     (let data = (if data0 = JUndefined then JObj [] else data0)
      in withLivepeerRoute E (str ''/api/v1/pipeline/load'') data
           (backend_fetch E (str ''Pipeline load failed'') (post_json (str ''/api/v1/pipeline/load'') data)))"

definition getPipelineStatus :: "env \<Rightarrow> 'a api_state_scheme \<Rightarrow> result \<times> 'a api_state_scheme" where
  "getPipelineStatus E =
     withLivepeerRoute E (str ''/api/v1/pipeline/status'') JNull
       (backend_fetch E (str ''Pipeline status failed'') (get_json (str ''/api/v1/pipeline/status'')))"

definition checkModelStatus :: "env \<Rightarrow> jsstring \<Rightarrow> 'a api_state_scheme \<Rightarrow> result \<times> 'a api_state_scheme" where
  "checkModelStatus E pipelineId =
     withLivepeerRoute E (str ''/api/v1/models/status?pipeline_id='' @ pipelineId) JNull
       (backend_fetch E (str ''Model status check failed'')
          (get_json (str ''/api/v1/models/status?pipeline_id='' @ pipelineId)))"

definition downloadPipelineModels :: "env \<Rightarrow> jsstring \<Rightarrow> 'a api_state_scheme \<Rightarrow> result \<times> 'a api_state_scheme" where
  "downloadPipelineModels E pipelineId =
     withLivepeerRoute E (str ''/api/v1/models/download'') (JObj [(str ''pipeline_id'', JStr pipelineId)])
       (backend_fetch E (str ''Model download failed'')
          (post_json (str ''/api/v1/models/download'') (JObj [(str ''pipeline_id'', JStr pipelineId)])))"

definition updatePipelineParameters :: "env \<Rightarrow> jsval \<Rightarrow> 'a api_state_scheme \<Rightarrow> result \<times> 'a api_state_scheme" where
  "updatePipelineParameters E data =
     withLivepeerRoute E (str ''/api/v1/pipeline/update'') data
       (backend_fetch E (str ''Pipeline update failed'') (post_json (str ''/api/v1/pipeline/update'') data))"

definition getHardwareInfo :: "env \<Rightarrow> 'a api_state_scheme \<Rightarrow> result \<times> 'a api_state_scheme" where
  "getHardwareInfo E =
     withLivepeerRoute E (str ''/api/v1/hardware/info'') JNull
       (backend_fetch E (str ''Hardware info failed'') (get_json (str ''/api/v1/hardware/info'')))"

text \<open>\<^verbatim>\<open>data: LivepeerStreamStartRequest = {}\<close>\<close>

definition startLivepeerStream :: "env \<Rightarrow> jsval \<Rightarrow> 'a api_state_scheme \<Rightarrow> result \<times> 'a api_state_scheme" where
  "startLivepeerStream E data0 s =
     (let data = (if data0 = JUndefined then JObj [] else data0);
          req = post_json (str ''/ai/stream/start'') data;
          s' = s\<lparr>trace := trace s @ [EvFetch req]\<rparr>
      in case fetch E req of
           Inl e \<Rightarrow> (Inl e, s')
         | Inr r \<Rightarrow>
             if \<not> ok r then (Inl (Error (failure_message (str ''Livepeer stream start failed'') r)), s')
             else (case JSON_parse E (body_text r) of
                     None \<Rightarrow> (Inl SyntaxError, s')
                   | Some v \<Rightarrow>
                       if \<not> truthy (opt_member v (str ''whep_url'')) then
                         (Inl (Error (str ''Livepeer stream start response missing whep_url'')), s')
                       else if \<not> truthy (opt_member v (str ''stream_id'')) then
                         (Inl (Error (str ''Livepeer stream start response missing stream_id'')), s')
                       else (Inr v, s')))"

text \<open>
  The seven calls that go through \<^verbatim>\<open>withLivepeerRoute\<close>, as data: the route and the
  request body each hands to it, and the label and the request of its own fetcher.
\<close>

datatype api_call =
    SendWebRTCOffer jsval
  | LoadPipeline jsval
  | GetPipelineStatus
  | CheckModelStatus jsstring
  | DownloadPipelineModels jsstring
  | UpdatePipelineParameters jsval
  | GetHardwareInfo

fun invoke :: "env \<Rightarrow> api_call \<Rightarrow> 'a api_state_scheme \<Rightarrow> result \<times> 'a api_state_scheme" where
  "invoke E (SendWebRTCOffer data) = sendWebRTCOffer E data"
| "invoke E (LoadPipeline data) = loadPipeline E data"
| "invoke E GetPipelineStatus = getPipelineStatus E"
| "invoke E (CheckModelStatus pipelineId) = checkModelStatus E pipelineId"
| "invoke E (DownloadPipelineModels pipelineId) = downloadPipelineModels E pipelineId"
| "invoke E (UpdatePipelineParameters data) = updatePipelineParameters E data"
| "invoke E GetHardwareInfo = getHardwareInfo E"

fun call_route :: "api_call \<Rightarrow> jsstring" where
  "call_route (SendWebRTCOffer data) = str ''/api/v1/webrtc/offer''"
| "call_route (LoadPipeline data) = str ''/api/v1/pipeline/load''"
| "call_route GetPipelineStatus = str ''/api/v1/pipeline/status''"
| "call_route (CheckModelStatus pipelineId) = str ''/api/v1/models/status?pipeline_id='' @ pipelineId"
| "call_route (DownloadPipelineModels pipelineId) = str ''/api/v1/models/download''"
| "call_route (UpdatePipelineParameters data) = str ''/api/v1/pipeline/update''"
| "call_route GetHardwareInfo = str ''/api/v1/hardware/info''"

fun call_body :: "api_call \<Rightarrow> jsval" where
  "call_body (SendWebRTCOffer data) = data"
| "call_body (LoadPipeline data) = (if data = JUndefined then JObj [] else data)"
| "call_body GetPipelineStatus = JNull"
| "call_body (CheckModelStatus pipelineId) = JNull"
| "call_body (DownloadPipelineModels pipelineId) = JObj [(str ''pipeline_id'', JStr pipelineId)]"
| "call_body (UpdatePipelineParameters data) = data"
| "call_body GetHardwareInfo = JNull"

fun call_label :: "api_call \<Rightarrow> jsstring" where
  "call_label (SendWebRTCOffer data) = str ''WebRTC offer failed''"
| "call_label (LoadPipeline data) = str ''Pipeline load failed''"
| "call_label GetPipelineStatus = str ''Pipeline status failed''"
| "call_label (CheckModelStatus pipelineId) = str ''Model status check failed''"
| "call_label (DownloadPipelineModels pipelineId) = str ''Model download failed''"
| "call_label (UpdatePipelineParameters data) = str ''Pipeline update failed''"
| "call_label GetHardwareInfo = str ''Hardware info failed''"

fun backend_request :: "api_call \<Rightarrow> request" where
  "backend_request (SendWebRTCOffer data) = post_json (str ''/api/v1/webrtc/offer'') data"
| "backend_request (LoadPipeline data) =
     post_json (str ''/api/v1/pipeline/load'') (if data = JUndefined then JObj [] else data)"
| "backend_request GetPipelineStatus = get_json (str ''/api/v1/pipeline/status'')"
| "backend_request (CheckModelStatus pipelineId) =
     get_json (str ''/api/v1/models/status?pipeline_id='' @ pipelineId)"
| "backend_request (DownloadPipelineModels pipelineId) =
     post_json (str ''/api/v1/models/download'') (JObj [(str ''pipeline_id'', JStr pipelineId)])"
| "backend_request (UpdatePipelineParameters data) = post_json (str ''/api/v1/pipeline/update'') data"
| "backend_request GetHardwareInfo = get_json (str ''/api/v1/hardware/info'')"

section \<open>The session hook (hooks/useWebRTC)\<close>

datatype transport = Webrtc | Livepeer

datatype pc_state = StNew | StConnecting | StConnected | StDisconnected | StFailed | StClosed

datatype dc_state = DcConnecting | DcOpen | DcClosing | DcClosed

datatype track_kind = Audio | Video

record track =
  track_id :: nat
  kind :: track_kind

record media_stream =
  ms_id :: nat
  getTracks :: "track list"

definition getVideoTracks :: "media_stream \<Rightarrow> track list" where
  "getVideoTracks ms = filter (\<lambda>t. kind t = Video) (getTracks ms)"

text \<open>An RTCRtpSender is its track (\<^verbatim>\<open>s.track\<close>, null for a transceiver added without one).\<close>

type_synonym sender = "track option"

record rtc_pc =
  closed :: bool
  senders :: "sender list"

record data_channel =
  dc_label :: jsstring
  readyState :: dc_state

text \<open>
  The hook's state (\<^verbatim>\<open>useState\<close>), its refs (\<^verbatim>\<open>useRef\<close>), the peer connections created so
  far (a ref holds the index of its object), on top of the API module's state. A callback
  reads the state of the render it was created in; the model reads the current state.
\<close>

record world = api_state +
  remoteStream :: "media_stream option"
  connectionState :: pc_state
  isConnecting :: bool
  isStreaming :: bool
  peerConnectionRef :: "nat option"
  dataChannelRef :: "data_channel option"
  currentStreamRef :: "media_stream option"
  livepeerStreamIdRef :: "jsstring option"
  pcs :: "rtc_pc list"

text \<open>\<^verbatim>\<open>pc.close()\<close>\<close>

definition close_pc :: "nat \<Rightarrow> world \<Rightarrow> world" where
  "close_pc i w =
     (if i < length (pcs w) then w\<lparr>pcs := (pcs w)[i := (pcs w ! i)\<lparr>closed := True\<rparr>]\<rparr> else w)"

definition senders_of :: "world \<Rightarrow> nat \<Rightarrow> sender list" where
  "senders_of w i = (if i < length (pcs w) then senders (pcs w ! i) else [])"

definition add_senders :: "nat \<Rightarrow> sender list \<Rightarrow> world \<Rightarrow> world" where
  "add_senders i ss w =
     (if i < length (pcs w)
      then w\<lparr>pcs := (pcs w)[i := (pcs w ! i)\<lparr>senders := senders (pcs w ! i) @ ss\<rparr>]\<rparr>
      else w)"

text \<open>
  The inner try/catch of \<^verbatim>\<open>startStream\<close> (relay transport): the relay session is
  requested; its stream id is recorded and published, or both holders are cleared and the
  error is thrown again. The playback URL goes to a local variable that only the ICE
  handler reads. The stream id is read at its declared type, a string; for a truthy
  \<^verbatim>\<open>stream_id\<close> of another kind, which that type excludes, the code would keep the value
  itself where this definition keeps no id.
\<close>

definition relay_start :: "env \<Rightarrow> jsval \<Rightarrow> world \<Rightarrow> js_error option \<times> world" where
  "relay_start E initialParameters w =
     (case startLivepeerStream E (JObj [(str ''initialParameters'', initialParameters)]) w of
        (Inr response, w') \<Rightarrow>
          (None,
           setLivepeerStreamId (as_string (opt_member response (str ''stream_id'')))
             (w'\<lparr>livepeerStreamIdRef := as_string (opt_member response (str ''stream_id''))\<rparr>))
      | (Inl error, w') \<Rightarrow>
          (Some error, setLivepeerStreamId None (w'\<lparr>livepeerStreamIdRef := None\<rparr>)))"

text \<open>The data channel of the direct transport, or the relay session.\<close>

definition transport_setup :: "env \<Rightarrow> transport \<Rightarrow> jsval \<Rightarrow> world \<Rightarrow> js_error option \<times> world" where
  "transport_setup E parameterTransport initialParameters w =
     (if parameterTransport \<noteq> Livepeer then
        (case rtc_fails E CreateDataChannel of
           Some e \<Rightarrow> (Some e, w)
         | None \<Rightarrow>
             (None, w\<lparr>dataChannelRef := Some \<lparr>dc_label = str ''parameters'', readyState = DcConnecting\<rparr>\<rparr>))
      else relay_start E initialParameters (w\<lparr>dataChannelRef := None\<rparr>))"

text \<open>The video tracks of the stream are added, or a video transceiver when there is no stream.\<close>

definition media_setup :: "env \<Rightarrow> media_stream option \<Rightarrow> nat \<Rightarrow> world \<Rightarrow> js_error option \<times> world" where
  "media_setup E stream pc w =
     (case stream of
        Some ms \<Rightarrow>
          (if getVideoTracks ms = [] then (None, w)
           else (case rtc_fails E AddTrack of
                   Some e \<Rightarrow> (Some e, w)
                 | None \<Rightarrow> (None, add_senders pc (map Some (getVideoTracks ms)) w)))
      | None \<Rightarrow>
          (case rtc_fails E AddTransceiver of
             Some e \<Rightarrow> (Some e, w)
           | None \<Rightarrow> (None, add_senders pc [None] w)))"

text \<open>\<^verbatim>\<open>await pc.createOffer(); await pc.setLocalDescription(offer)\<close>\<close>

definition negotiate :: "env \<Rightarrow> world \<Rightarrow> js_error option \<times> world" where
  "negotiate E w =
     (case rtc_fails E CreateOffer of
        Some e \<Rightarrow> (Some e, w)
      | None \<Rightarrow>
          (case rtc_fails E SetLocalDescription of
             Some e \<Rightarrow> (Some e, w)
           | None \<Rightarrow> (None, w)))"

text \<open>The body of the try block of \<^verbatim>\<open>startStream\<close>: the error thrown, if any, and the state then.\<close>

definition startStream_try ::
  "env \<Rightarrow> transport \<Rightarrow> jsval \<Rightarrow> media_stream option \<Rightarrow> world \<Rightarrow> js_error option \<times> world" where
  "startStream_try E parameterTransport initialParameters stream w0 =
     (let w1 = (if parameterTransport \<noteq> Livepeer
                then setLivepeerStreamId None (w0\<lparr>livepeerStreamIdRef := None\<rparr>)
                else w0);
          w2 = w1\<lparr>currentStreamRef := stream\<rparr>
      in case rtc_fails E NewPeerConnection of
           Some e \<Rightarrow> (Some e, w2)
         | None \<Rightarrow>
             let pc = length (pcs w2);
                 w3 = w2\<lparr>pcs := pcs w2 @ [\<lparr>closed = False, senders = []\<rparr>],
                         peerConnectionRef := Some pc\<rparr>
             in case transport_setup E parameterTransport initialParameters w3 of
                  (Some e, w4) \<Rightarrow> (Some e, w4)
                | (None, w4) \<Rightarrow>
                    (case media_setup E stream pc w4 of
                       (Some e, w5) \<Rightarrow> (Some e, w5)
                     | (None, w5) \<Rightarrow> negotiate E w5))"

text \<open>The catch block of \<^verbatim>\<open>startStream\<close>.\<close>

definition startStream_catch :: "world \<Rightarrow> world" where
  "startStream_catch w =
     (let w1 = (case peerConnectionRef w of
                  Some pc \<Rightarrow> (close_pc pc w)\<lparr>peerConnectionRef := None\<rparr>
                | None \<Rightarrow> w);
          w2 = setLivepeerStreamId None (w1\<lparr>livepeerStreamIdRef := None\<rparr>)
      in w2\<lparr>isConnecting := False, isStreaming := False\<rparr>)"

definition startStream :: "env \<Rightarrow> transport \<Rightarrow> jsval \<Rightarrow> media_stream option \<Rightarrow> world \<Rightarrow> world" where
  "startStream E parameterTransport initialParameters stream w =
     (if isConnecting w \<or> peerConnectionRef w \<noteq> None then w
      else (case startStream_try E parameterTransport initialParameters stream (w\<lparr>isConnecting := True\<rparr>) of
              (None, w') \<Rightarrow> w'
            | (Some error, w') \<Rightarrow> startStream_catch w'))"

text \<open>
  The handler of \<^verbatim>\<open>connectionstatechange\<close>; \<open>isLivepeerTransport\<close> is the constant its
  closure holds, \<open>st\<close> is \<^verbatim>\<open>pc.connectionState\<close> when it runs.
\<close>

definition onConnectionStateChange :: "bool \<Rightarrow> pc_state \<Rightarrow> world \<Rightarrow> world" where
  "onConnectionStateChange isLivepeerTransport st w0 =
     (let w = w0\<lparr>connectionState := st\<rparr>
      in if st = StConnected then w\<lparr>isConnecting := False, isStreaming := True\<rparr>
         else if st = StDisconnected \<or> st = StFailed \<or> st = StClosed then
           (let w1 = w\<lparr>isConnecting := False, isStreaming := False\<rparr>
            in if isLivepeerTransport
               then setLivepeerStreamId None (w1\<lparr>livepeerStreamIdRef := None\<rparr>)
               else w1)
         else w)"

text \<open>A run of the connection: the states the browser reports, in order.\<close>

fun run_connection :: "bool \<Rightarrow> pc_state list \<Rightarrow> world \<Rightarrow> world" where
  "run_connection isLivepeerTransport [] w = w"
| "run_connection isLivepeerTransport (st # sts) w =
     run_connection isLivepeerTransport sts (onConnectionStateChange isLivepeerTransport st w)"

text \<open>\<^verbatim>\<open>getSenders().find(s => s.track?.kind === "video")\<close>, as the position of the sender.\<close>

fun find_video_sender :: "sender list \<Rightarrow> nat option" where
  "find_video_sender [] = None"
| "find_video_sender (s # ss) =
     (case s of
        Some t \<Rightarrow> if kind t = Video then Some 0 else map_option Suc (find_video_sender ss)
      | None \<Rightarrow> map_option Suc (find_video_sender ss))"

text \<open>\<^verbatim>\<open>sender.replaceTrack(videoTrack)\<close> on sender \<open>i\<close> of connection \<open>pc\<close>.\<close>

definition replaceTrack :: "nat \<Rightarrow> nat \<Rightarrow> track \<Rightarrow> world \<Rightarrow> world" where
  "replaceTrack pc i videoTrack w =
     (if pc < length (pcs w)
      then w\<lparr>pcs := (pcs w)[pc := (pcs w ! pc)\<lparr>senders := (senders (pcs w ! pc))[i := Some videoTrack]\<rparr>]\<rparr>
      else w)"

definition updateVideoTrack :: "env \<Rightarrow> media_stream \<Rightarrow> world \<Rightarrow> bool \<times> world" where
  "updateVideoTrack E newStream w =
     (case peerConnectionRef w of
        None \<Rightarrow> (False, w)
      | Some pc \<Rightarrow>
          if \<not> isStreaming w then (False, w)
          else (case getVideoTracks newStream of
                  [] \<Rightarrow> (False, w)
                | videoTrack # rest \<Rightarrow>
                    (case find_video_sender (senders_of w pc) of
                       None \<Rightarrow> (False, w)
                     | Some i \<Rightarrow>
                         (case rtc_fails E ReplaceTrack of
                            Some e \<Rightarrow> (False, w)
                          | None \<Rightarrow>
                              (True, (replaceTrack pc i videoTrack w)\<lparr>currentStreamRef := Some newStream\<rparr>)))))"

text \<open>
  The loop of \<^verbatim>\<open>sendParameterUpdate\<close> over \<^verbatim>\<open>Object.entries(params)\<close>, the own fields of
  the update in the order of its keys: \<^verbatim>\<open>filteredParams[key] = value\<close> overwrites the key
  where it stands or adds it last. The key \<^verbatim>\<open>__proto__\<close> is the exception: on an object
  literal the assignment runs the setter of \<^verbatim>\<open>Object.prototype\<close>, which stores no field
  (it sets the prototype when the value is an object and does nothing otherwise).
\<close>

fun filter_params :: "(jsstring \<times> jsval) list \<Rightarrow> (jsstring \<times> jsval) list \<Rightarrow> (jsstring \<times> jsval) list" where
  "filter_params [] filteredParams = filteredParams"
| "filter_params ((key, v) # entries) filteredParams =
     filter_params entries
       (if v \<noteq> JUndefined \<and> v \<noteq> JNull then
          (if key = str ''__proto__'' then filteredParams else AList.update key v filteredParams)
        else filteredParams)"

definition sendParameterUpdate :: "env \<Rightarrow> transport \<Rightarrow> (jsstring \<times> jsval) list \<Rightarrow> world \<Rightarrow> world" where
  "sendParameterUpdate E parameterTransport params w =
     (let filteredParams = filter_params params []
      in if filteredParams = [] then w
         else if parameterTransport = Livepeer then
           (if \<not> truthy_id (livepeerStreamIdRef w) then w
            else snd (updatePipelineParameters E (JObj filteredParams) w))
         else (case dataChannelRef w of
                 None \<Rightarrow> w
               | Some dc \<Rightarrow>
                   if readyState dc = DcOpen
                   then w\<lparr>trace := trace w @ [EvSend (JSON_stringify (JObj filteredParams))]\<rparr>
                   else w))"

definition stopStream :: "world \<Rightarrow> world" where
  "stopStream w =
     (let w1 = (case peerConnectionRef w of
                  Some pc \<Rightarrow> (close_pc pc w)\<lparr>peerConnectionRef := None\<rparr>
                | None \<Rightarrow> w);
          w2 = w1\<lparr>dataChannelRef := None, currentStreamRef := None, livepeerStreamIdRef := None\<rparr>;
          w3 = setLivepeerStreamId None w2
      in w3\<lparr>remoteStream := None, connectionState := StNew, isStreaming := False\<rparr>)"

section \<open>Notions the properties are stated with\<close>

text \<open>The segments of a path: the pieces between its slashes.\<close>

fun split_from :: "'a \<Rightarrow> 'a list \<Rightarrow> 'a list \<Rightarrow> 'a list list" where
  "split_from d acc [] = [rev acc]"
| "split_from d acc (c # cs) = (if c = d then rev acc # split_from d [] cs else split_from d (c # acc) cs)"

definition path_segments :: "jsstring \<Rightarrow> jsstring list" where
  "path_segments p = split_from 0x2F [] p"

text \<open>
  \<^verbatim>\<open>String.prototype.isWellFormed\<close>: no surrogate code unit stands outside a pair of a
  leading and a trailing one.
\<close>

fun isWellFormed :: "jsstring \<Rightarrow> bool" where
  "isWellFormed [] = True"
| "isWellFormed (c # cs) =
     (if is_lead c then (case cs of [] \<Rightarrow> False | d # ds \<Rightarrow> is_trail d \<and> isWellFormed ds)
      else if is_trail c then False
      else isWellFormed cs)"

text \<open>The code units \<^verbatim>\<open>encodeURIComponent\<close> can produce: an unreserved one, or the percent sign.\<close>

definition uri_safe :: "16 word \<Rightarrow> bool" where
  "uri_safe c = (uriUnescaped c \<or> c = 0x25)"

text \<open>
  A network that answers every request with the given status and body, and a parser that
  reads that body as the given value (None: it does not parse) and nothing else; a module
  state with the given relay stream id.
\<close>

definition example_env :: "nat \<Rightarrow> string \<Rightarrow> jsval option \<Rightarrow> env" where
  "example_env st txt v =
     \<lparr>fetch = (\<lambda>req. Inr \<lparr>status = st, statusText = str ''X'', body_text = str txt\<rparr>),
      JSON_parse = (\<lambda>s. if s = str txt then v else None),
      rtc_fails = (\<lambda>op. None)\<rparr>"

definition example_state :: "jsstring option \<Rightarrow> api_state" where
  "example_state sid = \<lparr>livepeerStreamId = sid, trace = []\<rparr>"

text \<open>
  The state of a hook that was just mounted (the initial values of its \<^verbatim>\<open>useState\<close> and
  \<^verbatim>\<open>useRef\<close> cells), with the module's relay stream id unset and no effect so far.
\<close>

definition initial_world :: world where
  "initial_world =
     \<lparr>livepeerStreamId = None, trace = [], remoteStream = None, connectionState = StNew,
      isConnecting = False, isStreaming = False, peerConnectionRef = None, dataChannelRef = None,
      currentStreamRef = None, livepeerStreamIdRef = None, pcs = []\<rparr>"

text \<open>
  The connection states on which the handler resets the session.
\<close>

definition terminal :: "pc_state \<Rightarrow> bool" where
  "terminal st = (st = StDisconnected \<or> st = StFailed \<or> st = StClosed)"

text \<open>
  How often the shared relay stream id was cleared: the calls \<^verbatim>\<open>setLivepeerStreamId(null)\<close>.
\<close>

definition clears :: "event list \<Rightarrow> nat" where
  "clears evs = length (filter (\<lambda>e. e = EvSetStreamId None) evs)"

text \<open>
  At most one peer connection is live: every connection that is not closed is the one the
  hook's ref holds.
\<close>

definition one_live :: "world \<Rightarrow> bool" where
  "one_live w =
     list_all (\<lambda>i. closed (pcs w ! i) \<or> peerConnectionRef w = Some i) [0..<length (pcs w)]"

text \<open>
  A relay session under way: the stream id \<^verbatim>\<open>abc\<close> is recorded and published, and the ref
  holds an open connection with a video transceiver.
\<close>

definition relay_world :: world where
  "relay_world =
     initial_world\<lparr>livepeerStreamId := Some (str ''abc''), livepeerStreamIdRef := Some (str ''abc''),
                   peerConnectionRef := Some 0,
                   pcs := [\<lparr>closed = False, senders = [None]\<rparr>]\<rparr>"

text \<open>
  A start under way: the hook is connecting and its ref holds an open connection.
\<close>

definition connecting_world :: world where
  "connecting_world =
     initial_world\<lparr>isConnecting := True, peerConnectionRef := Some 0,
                   pcs := [\<lparr>closed = False, senders = [None]\<rparr>]\<rparr>"

text \<open>
  A sender whose track is a video track (\<^verbatim>\<open>s.track?.kind === "video"\<close>).
\<close>

definition is_video_sender :: "sender \<Rightarrow> bool" where
  "is_video_sender s = (case s of Some t \<Rightarrow> kind t = Video | None \<Rightarrow> False)"

text \<open>
  The fields \<^verbatim>\<open>sendParameterUpdate\<close> is to keep: those whose value is neither undefined nor null.
\<close>

definition keeps :: "jsstring \<times> jsval \<Rightarrow> bool" where
  "keeps kv = (snd kv \<noteq> JUndefined \<and> snd kv \<noteq> JNull)"

text \<open>
  The fields the loop of \<^verbatim>\<open>sendParameterUpdate\<close> stores: those it is to keep, but for a
  field named \<^verbatim>\<open>__proto__\<close>.
\<close>

definition stores :: "jsstring \<times> jsval \<Rightarrow> bool" where
  "stores kv = (keeps kv \<and> fst kv \<noteq> str ''__proto__'')"

text \<open>
  A network that answers every request with the given response, and a parser that reads
  the given text as the given value and nothing else.
\<close>

definition answering :: "response \<Rightarrow> string \<Rightarrow> jsval option \<Rightarrow> env" where
  "answering r txt v =
     \<lparr>fetch = (\<lambda>req. Inr r),
      JSON_parse = (\<lambda>s. if s = str txt then v else None),
      rtc_fails = (\<lambda>op. None)\<rparr>"

text \<open>
  A direct session that streams: the ref holds an open connection whose second sender
  carries a video track, and the data channel is open.
\<close>

definition streaming_world :: world where
  "streaming_world =
     initial_world\<lparr>isStreaming := True, connectionState := StConnected, peerConnectionRef := Some 0,
                   dataChannelRef := Some \<lparr>dc_label = str ''parameters'', readyState = DcOpen\<rparr>,
                   pcs := [\<lparr>closed = False, senders = [None, Some \<lparr>track_id = 1, kind = Video\<rparr>]\<rparr>]\<rparr>"

text \<open>
  A local stream with an audio track and a video track.
\<close>

definition camera :: media_stream where
  "camera = \<lparr>ms_id = 7, getTracks = [\<lparr>track_id = 2, kind = Audio\<rparr>, \<lparr>track_id = 3, kind = Video\<rparr>]\<rparr>"

section \<open>Properties\<close>

subsection \<open>encodeURIComponent and the relay path\<close>

lemma unescaped_not_surrogate: "uriUnescaped c \<Longrightarrow> \<not> is_lead c \<and> \<not> is_trail c"
  unfolding uriUnescaped_def is_lead_def is_trail_def uriMark_def str_def
  by (auto simp: word_le_nat_alt)

lemma lead_not_trail: "is_lead c \<Longrightarrow> \<not> is_trail c"
  unfolding is_lead_def is_trail_def by (auto simp: word_le_nat_alt)

lemma prepend_simps [simp]:
  "prepend xs (Inl e) = Inl e"
  "prepend xs (Inr ys) = Inr (xs @ ys)"
  by (simp_all add: prepend_def)

lemma prepend_eq_Inr: "(prepend xs r = Inr zs) = (\<exists>ys. r = Inr ys \<and> zs = xs @ ys)"
  by (cases r) auto

lemma encode_wellformed_1: "encodeURIComponent s = Inr enc \<Longrightarrow> isWellFormed s"
proof (induction s arbitrary: enc rule: encodeURIComponent.induct)
  case 1
  then show ?case by simp
next
  case (2 c cs)
  show ?case
  proof (cases "uriUnescaped c")
    case True
    with 2 show ?thesis
      by (auto simp: prepend_eq_Inr unescaped_not_surrogate)
  next
    case nu: False
    show ?thesis
    proof (cases "is_trail c")
      case True
      with nu 2 show ?thesis by simp
    next
      case nt: False
      show ?thesis
      proof (cases "is_lead c")
        case True
        with nu nt 2 show ?thesis
          by (cases cs) (auto simp: prepend_eq_Inr split: if_splits)
      next
        case False
        with nu nt 2 show ?thesis
          by (auto simp: prepend_eq_Inr)
      qed
    qed
  qed
qed

lemma encode_wellformed_2: "isWellFormed s \<Longrightarrow> \<exists>enc. encodeURIComponent s = Inr enc"
proof (induction s rule: encodeURIComponent.induct)
  case 1
  then show ?case by simp
next
  case (2 c cs)
  show ?case
  proof (cases "uriUnescaped c")
    case True
    with 2 show ?thesis
      by (auto simp: unescaped_not_surrogate)
  next
    case nu: False
    show ?thesis
    proof (cases "is_lead c")
      case True
      with nu 2 show ?thesis
        by (cases cs) (auto simp: lead_not_trail)
    next
      case False
      with nu 2 show ?thesis
        by (auto split: if_splits)
    qed
  qed
qed

lemma unat_small: "k < 65536 \<Longrightarrow> unat (of_nat k :: 16 word) = k"
  by (simp add: unat_of_nat)

lemma hex_digit_unescaped: "uriUnescaped (hex_digit n)"
proof (cases "n mod 16 < 10")
  case True
  then have "unat (of_nat (0x30 + n mod 16) :: 16 word) = 0x30 + n mod 16"
    by (intro unat_small) simp
  with True show ?thesis
    unfolding hex_digit_def uriUnescaped_def word_le_nat_alt
    by (simp del: of_nat_add)
next
  case False
  have "n mod 16 < 16" by simp
  then have "unat (of_nat (0x41 + (n mod 16 - 10)) :: 16 word) = 0x41 + (n mod 16 - 10)"
    by (intro unat_small) simp
  moreover have "n mod 16 \<le> 35" using \<open>n mod 16 < 16\<close> by linarith
  ultimately show ?thesis
    using False unfolding hex_digit_def uriUnescaped_def word_le_nat_alt
    by (simp del: of_nat_add)
qed

lemma percent_octet_safe: "list_all uri_safe (percent_octet b)"
  by (simp add: percent_octet_def uri_safe_def hex_digit_unescaped)

lemma percent_encode_safe: "list_all uri_safe (percent_encode cp)"
  unfolding percent_encode_def utf8_octets_def
  by (simp add: percent_octet_safe)

lemma unescaped_safe: "uriUnescaped c \<Longrightarrow> uri_safe c"
  by (simp add: uri_safe_def)

lemma encode_safe: "encodeURIComponent s = Inr enc \<Longrightarrow> list_all uri_safe enc"
proof (induction s arbitrary: enc rule: encodeURIComponent.induct)
  case 1
  then show ?case by simp
next
  case (2 c cs)
  show ?case
  proof (cases "uriUnescaped c")
    case True
    with 2 show ?thesis
      by (auto simp: prepend_eq_Inr unescaped_safe)
  next
    case nu: False
    show ?thesis
    proof (cases "is_lead c")
      case True
      with nu 2 show ?thesis
        by (cases cs) (auto simp: prepend_eq_Inr percent_encode_safe split: if_splits)
    next
      case False
      with nu 2 show ?thesis
        by (auto simp: prepend_eq_Inr percent_encode_safe split: if_splits)
    qed
  qed
qed

lemma safe_not_reserved: "uri_safe c \<Longrightarrow> c \<noteq> 0x2F \<and> c \<noteq> 0x3F \<and> c \<noteq> 0x23"
  unfolding uri_safe_def uriUnescaped_def uriMark_def str_def
  by (auto simp: word_le_nat_alt)

lemma split_from_delim: "d \<notin> set xs \<Longrightarrow> split_from d acc (xs @ d # rest) = (rev acc @ xs) # split_from d [] rest"
  by (induction xs arbitrary: acc) auto

lemma encode_error: "encodeURIComponent s = Inl e \<Longrightarrow> e = URIError"
proof (induction s rule: encodeURIComponent.induct)
  case 1
  then show ?case by simp
next
  case (2 c cs)
  show ?case
  proof (cases "uriUnescaped c")
    case True
    with 2 show ?thesis by (cases "encodeURIComponent cs") auto
  next
    case nu: False
    show ?thesis
    proof (cases "is_lead c")
      case True
      with nu 2 show ?thesis
        by (cases cs; cases "encodeURIComponent (tl cs)") (auto split: if_splits)
    next
      case False
      with nu 2 show ?thesis
        by (cases "encodeURIComponent cs") (auto split: if_splits)
    qed
  qed
qed

lemma encode_ill_formed: "\<not> isWellFormed s \<Longrightarrow> encodeURIComponent s = Inl URIError"
proof -
  assume a: "\<not> isWellFormed s"
  show ?thesis
  proof (cases "encodeURIComponent s")
    case (Inl e)
    then show ?thesis using encode_error by simp
  next
    case (Inr enc)
    then show ?thesis using encode_wellformed_1 a by blast
  qed
qed

lemma relay_path_segments:
  assumes "0x2F \<notin> set enc"
  shows "path_segments (str ''/ai/stream/'' @ enc @ str ''/update'')
         = [[], str ''ai'', str ''stream'', enc, str ''update'']"
proof -
  have "split_from (0x2F :: 16 word) [] (enc @ 0x2F # str ''update'') = enc # split_from 0x2F [] (str ''update'')"
    using split_from_delim [OF assms, of "[]" "str ''update''"] by simp
  then show ?thesis
    by (simp add: path_segments_def str_def)
qed

text \<open>
  Claim C10, as the code has it. For a well-formed stream id, \<^verbatim>\<open>forwardLivepeerRequest\<close> hands
  \<^verbatim>\<open>fetch\<close> one POST whose path is \<^verbatim>\<open>/ai/stream/\<close>, the id encoded as one URI component,
  \<^verbatim>\<open>/update\<close>; the encoded id holds unreserved characters and percent escapes only, so no
  slash, question mark or hash, and the path has the five segments it is written with. For
  an id with an unpaired surrogate the encoding throws URIError and nothing is sent.
\<close>

theorem forwardLivepeerRequest_target:
  "if isWellFormed streamId then
     (\<exists>enc. encodeURIComponent streamId = Inr enc
        \<and> trace (snd (forwardLivepeerRequest E streamId route payload s))
            = trace s @ [EvFetch \<lparr>req_method = POST,
                                  req_url = str ''/ai/stream/'' @ enc @ str ''/update'',
                                  req_headers = json_headers,
                                  req_body = Some (JSON_stringify
                                    (JObj [(str ''route'', JStr route), (str ''request'', payload)]))\<rparr>]
        \<and> list_all uri_safe enc
        \<and> 0x2F \<notin> set enc \<and> 0x3F \<notin> set enc \<and> 0x23 \<notin> set enc
        \<and> path_segments (str ''/ai/stream/'' @ enc @ str ''/update'')
            = [[], str ''ai'', str ''stream'', enc, str ''update''])
   else forwardLivepeerRequest E streamId route payload s = (Inl URIError, s)"
proof (cases "isWellFormed streamId")
  case True
  then obtain enc where enc: "encodeURIComponent streamId = Inr enc"
    using encode_wellformed_2 by blast
  have safe: "list_all uri_safe enc" using encode_safe [OF enc] .
  then have nr: "0x2F \<notin> set enc \<and> 0x3F \<notin> set enc \<and> 0x23 \<notin> set enc"
    using safe_not_reserved by (auto simp: list_all_iff)
  have tr: "trace (snd (forwardLivepeerRequest E streamId route payload s))
            = trace s @ [EvFetch (relay_update_request enc route payload)]"
    by (simp add: forwardLivepeerRequest_def enc Let_def split: sum.splits option.splits)
  show ?thesis
    using True enc safe nr tr relay_path_segments [of enc]
    by (simp add: relay_update_request_def)
next
  case False
  then show ?thesis
    by (simp add: forwardLivepeerRequest_def encode_ill_formed)
qed

text \<open>The id \<^verbatim>\<open>a/b?c#d\<close> is sent as \<^verbatim>\<open>a%2Fb%3Fc%23d\<close>.\<close>

theorem forwardLivepeerRequest_target_witness:
  "isWellFormed (str ''a/b?c#d'')
   \<and> encodeURIComponent (str ''a/b?c#d'') = Inr (str ''a%2Fb%3Fc%23d'')
   \<and> trace (snd (forwardLivepeerRequest (example_env 200 ''{}'' (Some (JObj []))) (str ''a/b?c#d'') (str ''/r'') JNull (example_state None)))
       = [EvFetch \<lparr>req_method = POST,
                   req_url = str ''/ai/stream/a%2Fb%3Fc%23d/update'',
                   req_headers = json_headers,
                   req_body = Some (JSON_stringify (JObj [(str ''route'', JStr (str ''/r'')), (str ''request'', JNull)]))\<rparr>]
   \<and> path_segments (str ''/ai/stream/a%2Fb%3Fc%23d/update'')
       = [[], str ''ai'', str ''stream'', str ''a%2Fb%3Fc%23d'', str ''update'']"
proof -
  have e: "encodeURIComponent (str ''a/b?c#d'') = Inr (str ''a%2Fb%3Fc%23d'')"
    by code_simp
  have w: "isWellFormed (str ''a/b?c#d'')"
    by code_simp
  have cat: "str ''/ai/stream/'' @ str ''a%2Fb%3Fc%23d'' @ str ''/update'' = str ''/ai/stream/a%2Fb%3Fc%23d/update''"
    by (simp add: str_def)
  have tr: "trace (example_state None) = []"
    by (simp add: example_state_def)
  from forwardLivepeerRequest_target [of "str ''a/b?c#d''" "example_env 200 ''{}'' (Some (JObj []))" "str ''/r''" JNull "example_state None"]
  have "\<exists>enc. encodeURIComponent (str ''a/b?c#d'') = Inr enc
        \<and> trace (snd (forwardLivepeerRequest (example_env 200 ''{}'' (Some (JObj []))) (str ''a/b?c#d'') (str ''/r'') JNull (example_state None)))
            = trace (example_state None) @ [EvFetch \<lparr>req_method = POST,
                                  req_url = str ''/ai/stream/'' @ enc @ str ''/update'',
                                  req_headers = json_headers,
                                  req_body = Some (JSON_stringify
                                    (JObj [(str ''route'', JStr (str ''/r'')), (str ''request'', JNull)]))\<rparr>]
        \<and> list_all uri_safe enc
        \<and> 0x2F \<notin> set enc \<and> 0x3F \<notin> set enc \<and> 0x23 \<notin> set enc
        \<and> path_segments (str ''/ai/stream/'' @ enc @ str ''/update'')
            = [[], str ''ai'', str ''stream'', enc, str ''update'']"
    by (simp only: w if_True)
  then show ?thesis
    using w by (simp add: e cat tr)
qed

text \<open>Claim C10 as stated, for every id: the id that is one leading surrogate sends no request.\<close>

theorem unpaired_surrogate_counterexample:
  "fst (forwardLivepeerRequest (example_env 200 ''{}'' (Some (JObj []))) [0xD800] (str ''/api/v1/pipeline/update'') JNull (example_state None))
     = Inl URIError
   \<and> trace (snd (forwardLivepeerRequest (example_env 200 ''{}'' (Some (JObj []))) [0xD800] (str ''/api/v1/pipeline/update'') JNull (example_state None)))
     = []"
  by (simp add: forwardLivepeerRequest_def example_state_def uriUnescaped_def uriMark_def str_def
        is_trail_def is_lead_def)

subsection \<open>The API client\<close>

lemma invoke_eq:
  "invoke E c = withLivepeerRoute E (call_route c) (call_body c)
                  (backend_fetch E (call_label c) (backend_request c))"
  by (cases c)
     (simp_all add: sendWebRTCOffer_def loadPipeline_def getPipelineStatus_def checkModelStatus_def
        downloadPipelineModels_def updatePipelineParameters_def getHardwareInfo_def Let_def)

lemma forward_trace:
  "encodeURIComponent sid = Inr enc \<Longrightarrow>
   trace (snd (forwardLivepeerRequest E sid route payload s))
     = trace s @ [EvFetch (relay_update_request enc route payload)]"
  by (simp add: forwardLivepeerRequest_def Let_def split: sum.splits option.splits)

lemma forward_id:
  "livepeerStreamId (snd (forwardLivepeerRequest E sid route payload s)) = livepeerStreamId s"
  by (simp add: forwardLivepeerRequest_def Let_def split: sum.splits option.splits)

lemma forward_result:
  "encodeURIComponent sid = Inr enc \<Longrightarrow>
   fetch E (relay_update_request enc route payload) = Inr r \<Longrightarrow>
   fst (forwardLivepeerRequest E sid route payload s)
     = (if \<not> ok r then Inl (Error (failure_message (str ''Livepeer update failed'') r))
        else if body_text r = [] then Inr JNull
        else (case JSON_parse E (body_text r) of Some v \<Rightarrow> Inr v | None \<Rightarrow> Inr (JStr (body_text r))))"
  by (simp add: forwardLivepeerRequest_def Let_def split: option.splits)

lemma relay_url_not_backend:
  "str ''/ai/stream/'' @ enc @ str ''/update'' \<noteq> req_url (backend_request c)"
  by (cases c) (simp_all add: post_json_def get_json_def str_def)

lemma routed:
  "livepeerStreamId s = Some sid \<Longrightarrow> sid \<noteq> [] \<Longrightarrow>
   invoke E c s = forwardLivepeerRequest E sid (call_route c) (nullish (call_body c) JNull) s"
  by (simp add: invoke_eq withLivepeerRoute_def)

lemma direct:
  "\<not> truthy_id (livepeerStreamId s) \<Longrightarrow>
   invoke E c s = backend_fetch E (call_label c) (backend_request c) s"
  by (simp add: invoke_eq withLivepeerRoute_def truthy_id_def split: option.splits)

text \<open>
  Claim C1, as the code has it. When the module's relay stream id is a non-empty,
  well-formed string, each of the seven eligible calls hands \<^verbatim>\<open>fetch\<close> exactly one request: a
  POST to \<^verbatim>\<open>/ai/stream/\<close>, the encoded id, \<^verbatim>\<open>/update\<close>, whose body is the envelope of the
  call's route and of its request body (null for a call without one). That URL is not the
  backend's, the id stays set, and when the relay answers with an ok status the call returns
  null for an empty body, the parsed JSON where the body parses, the body text otherwise.
\<close>

theorem relay_indirection:
  assumes "livepeerStreamId s = Some sid" and "sid \<noteq> []" and "isWellFormed sid"
  shows "\<exists>enc. encodeURIComponent sid = Inr enc \<and>
     (let req = \<lparr>req_method = POST,
                 req_url = str ''/ai/stream/'' @ enc @ str ''/update'',
                 req_headers = json_headers,
                 req_body = Some (JSON_stringify
                   (JObj [(str ''route'', JStr (call_route c)),
                          (str ''request'', nullish (call_body c) JNull)]))\<rparr>
      in trace (snd (invoke E c s)) = trace s @ [EvFetch req]
         \<and> req_url req \<noteq> req_url (backend_request c)
         \<and> livepeerStreamId (snd (invoke E c s)) = Some sid
         \<and> (\<forall>r. fetch E req = Inr r \<longrightarrow> ok r \<longrightarrow>
               fst (invoke E c s)
                 = (if body_text r = [] then Inr JNull
                    else (case JSON_parse E (body_text r) of
                            Some v \<Rightarrow> Inr v
                          | None \<Rightarrow> Inr (JStr (body_text r))))))"
proof -
  obtain enc where enc: "encodeURIComponent sid = Inr enc"
    using assms(3) encode_wellformed_2 by blast
  have inv: "invoke E c s = forwardLivepeerRequest E sid (call_route c) (nullish (call_body c) JNull) s"
    by (rule routed [OF assms(1,2)])
  have "trace (snd (invoke E c s))
          = trace s @ [EvFetch (relay_update_request enc (call_route c) (nullish (call_body c) JNull))]"
    by (simp add: forward_trace [OF enc] inv)
  moreover have "livepeerStreamId (snd (invoke E c s)) = Some sid"
    by (simp add: forward_id inv assms(1))
  moreover have "\<forall>r. fetch E (relay_update_request enc (call_route c) (nullish (call_body c) JNull)) = Inr r \<longrightarrow> ok r \<longrightarrow>
               fst (invoke E c s)
                 = (if body_text r = [] then Inr JNull
                    else (case JSON_parse E (body_text r) of
                            Some v \<Rightarrow> Inr v
                          | None \<Rightarrow> Inr (JStr (body_text r))))"
    by (simp add: forward_result [OF enc] inv)
  ultimately show ?thesis
    using enc relay_url_not_backend [of enc c]
    by (simp add: relay_update_request_def Let_def)
qed

text \<open>
  \<^verbatim>\<open>updatePipelineParameters({paused: true})\<close> with the relay id \<^verbatim>\<open>abc\<close> set.
\<close>

theorem relay_indirection_witness:
  "livepeerStreamId (example_state (Some (str ''abc''))) = Some (str ''abc'')
   \<and> str ''abc'' \<noteq> []
   \<and> isWellFormed (str ''abc'')
   \<and> trace (snd (invoke (example_env 200 ''{}'' (Some (JObj [])))
                    (UpdatePipelineParameters (JObj [(str ''paused'', JBool True)]))
                    (example_state (Some (str ''abc'')))))
       = [EvFetch \<lparr>req_method = POST,
                   req_url = str ''/ai/stream/abc/update'',
                   req_headers = json_headers,
                   req_body = Some (JSON_stringify
                     (JObj [(str ''route'', JStr (str ''/api/v1/pipeline/update'')),
                            (str ''request'', JObj [(str ''paused'', JBool True)])]))\<rparr>]
   \<and> fst (invoke (example_env 200 ''{}'' (Some (JObj [])))
              (UpdatePipelineParameters (JObj [(str ''paused'', JBool True)]))
              (example_state (Some (str ''abc''))))
       = Inr (JObj [])"
proof -
  let ?s = "example_state (Some (str ''abc''))"
  let ?E = "example_env 200 ''{}'' (Some (JObj []))"
  let ?c = "UpdatePipelineParameters (JObj [(str ''paused'', JBool True)])"
  have h1: "livepeerStreamId ?s = Some (str ''abc'')"
    by (simp add: example_state_def)
  have h2: "str ''abc'' \<noteq> []"
    by (simp add: str_def)
  have h3: "isWellFormed (str ''abc'')"
    by code_simp
  have e: "encodeURIComponent (str ''abc'') = Inr (str ''abc'')"
    by code_simp
  have cat: "str ''/ai/stream/'' @ str ''abc'' @ str ''/update'' = str ''/ai/stream/abc/update''"
    by (simp add: str_def)
  have tr: "trace ?s = []"
    by (simp add: example_state_def)
  have f: "fetch ?E req = Inr \<lparr>status = 200, statusText = str ''X'', body_text = str ''{}''\<rparr>" for req
    by (simp add: example_env_def)
  have p: "JSON_parse ?E (str ''{}'') = Some (JObj [])"
    by (simp add: example_env_def)
  have n: "str ''{}'' \<noteq> []"
    by (simp add: str_def)
  from relay_indirection [OF h1 h2 h3, of ?c ?E]
  show ?thesis
    using h1 h2 h3 by (simp add: e cat tr f p n ok_def nullish_def Let_def)
qed

text \<open>
  Claim C1 as stated, for every id the module can hold: with the empty string as id the call
  goes to the backend; with an unpaired surrogate as id no request is sent at all; and a
  relay answer with status 500 is thrown as an Error, not returned.
\<close>

theorem relay_indirection_counterexample:
  "trace (snd (invoke (example_env 200 ''{}'' (Some (JObj []))) GetHardwareInfo (example_state (Some []))))
     = [EvFetch (get_json (str ''/api/v1/hardware/info''))]
   \<and> trace (snd (invoke (example_env 200 ''{}'' (Some (JObj []))) GetHardwareInfo (example_state (Some [0xD800]))))
     = []
   \<and> fst (invoke (example_env 500 ''{}'' (Some (JObj []))) GetHardwareInfo (example_state (Some (str ''abc''))))
     = Inl (Error (str ''Livepeer update failed: 500 X: {}''))"
proof -
  have 1: "trace (snd (invoke (example_env 200 ''{}'' (Some (JObj []))) GetHardwareInfo (example_state (Some []))))
     = [EvFetch (get_json (str ''/api/v1/hardware/info''))]"
    by (simp add: getHardwareInfo_def withLivepeerRoute_def backend_fetch_def example_state_def
          example_env_def Let_def ok_def)
  have 2: "trace (snd (invoke (example_env 200 ''{}'' (Some (JObj []))) GetHardwareInfo (example_state (Some [0xD800]))))
     = []"
    by (simp add: getHardwareInfo_def withLivepeerRoute_def forwardLivepeerRequest_def example_state_def
          uriUnescaped_def uriMark_def str_def is_trail_def is_lead_def)
  have e: "encodeURIComponent (str ''abc'') = Inr (str ''abc'')"
    by code_simp
  have d: "dec 500 = str ''500''"
    by (simp add: dec.simps str_def)
  have m: "failure_message (str ''Livepeer update failed'') \<lparr>status = 500, statusText = str ''X'', body_text = str ''{}''\<rparr>
           = str ''Livepeer update failed: 500 X: {}''"
    by (simp add: failure_message_def d) (simp add: str_def)
  have 3: "fst (invoke (example_env 500 ''{}'' (Some (JObj []))) GetHardwareInfo (example_state (Some (str ''abc''))))
     = Inl (Error (str ''Livepeer update failed: 500 X: {}''))"
    using m
    by (simp add: getHardwareInfo_def withLivepeerRoute_def forwardLivepeerRequest_def example_state_def
          example_env_def e Let_def ok_def) (simp add: str_def)
  from 1 2 3 show ?thesis by blast
qed

lemma startLivepeerStream_trace:
  "trace (snd (startLivepeerStream E data s))
     = trace s @ [EvFetch (post_json (str ''/ai/stream/start'') (if data = JUndefined then JObj [] else data))]"
  by (simp add: startLivepeerStream_def Let_def split: sum.splits option.splits)

lemma startLivepeerStream_id:
  "livepeerStreamId (snd (startLivepeerStream E data s)) = livepeerStreamId s"
  by (simp add: startLivepeerStream_def Let_def split: sum.splits option.splits)

lemma startLivepeerStream_Inr:
  "fst (startLivepeerStream E data s) = Inr v \<Longrightarrow>
   \<exists>r. fetch E (post_json (str ''/ai/stream/start'') (if data = JUndefined then JObj [] else data)) = Inr r
       \<and> ok r \<and> JSON_parse E (body_text r) = Some v
       \<and> truthy (opt_member v (str ''whep_url'')) \<and> truthy (opt_member v (str ''stream_id''))"
  by (simp add: startLivepeerStream_def Let_def split: sum.splits option.splits if_splits)

lemma startLivepeerStream_Inl:
  "fetch E (post_json (str ''/ai/stream/start'') (if data = JUndefined then JObj [] else data)) = Inr r \<Longrightarrow>
   JSON_parse E (body_text r) = None
     \<or> (\<exists>v. JSON_parse E (body_text r) = Some v
           \<and> \<not> (truthy (opt_member v (str ''whep_url'')) \<and> truthy (opt_member v (str ''stream_id'')))) \<Longrightarrow>
   \<exists>e. fst (startLivepeerStream E data s) = Inl e"
  by (auto simp add: startLivepeerStream_def Let_def split: sum.splits option.splits if_splits)

text \<open>
  Claim C2. \<^verbatim>\<open>startLivepeerStream\<close> returns a value only when the relay answered with an ok
  status and a body that parses to a value with a truthy \<^verbatim>\<open>whep_url\<close> and a truthy
  \<^verbatim>\<open>stream_id\<close>; on every response whose body does not parse or lacks one of the two it
  throws; and it leaves the module's relay stream id as it was: its only effect is its one
  request (it never calls \<^verbatim>\<open>setLivepeerStreamId\<close>).
\<close>

theorem startLivepeerStream_validates:
  "(\<forall>v. fst (startLivepeerStream E data s) = Inr v \<longrightarrow>
      (\<exists>r. fetch E (post_json (str ''/ai/stream/start'') (if data = JUndefined then JObj [] else data)) = Inr r
          \<and> ok r \<and> JSON_parse E (body_text r) = Some v
          \<and> truthy (opt_member v (str ''whep_url'')) \<and> truthy (opt_member v (str ''stream_id''))))
   \<and> (\<forall>r. fetch E (post_json (str ''/ai/stream/start'') (if data = JUndefined then JObj [] else data)) = Inr r \<longrightarrow>
         (JSON_parse E (body_text r) = None
          \<or> (\<exists>v. JSON_parse E (body_text r) = Some v
                \<and> \<not> (truthy (opt_member v (str ''whep_url'')) \<and> truthy (opt_member v (str ''stream_id''))))) \<longrightarrow>
         (\<exists>e. fst (startLivepeerStream E data s) = Inl e))
   \<and> livepeerStreamId (snd (startLivepeerStream E data s)) = livepeerStreamId s
   \<and> trace (snd (startLivepeerStream E data s))
       = trace s @ [EvFetch (post_json (str ''/ai/stream/start'') (if data = JUndefined then JObj [] else data))]"
  using startLivepeerStream_Inr [of E data s] startLivepeerStream_Inl [of E data _ s]
        startLivepeerStream_id [of E data s] startLivepeerStream_trace [of E data s]
  by blast

text \<open>
  A response with both fields is returned; one without \<^verbatim>\<open>stream_id\<close> is an error.
\<close>

theorem startLivepeerStream_validates_witness:
  "fst (startLivepeerStream
          (example_env 200 ''r'' (Some (JObj [(str ''whep_url'', JStr (str ''u'')), (str ''stream_id'', JStr (str ''abc''))])))
          JUndefined (example_state None))
     = Inr (JObj [(str ''whep_url'', JStr (str ''u'')), (str ''stream_id'', JStr (str ''abc''))])
   \<and> (\<exists>r. fetch (example_env 200 ''r'' (Some (JObj [(str ''whep_url'', JStr (str ''u'')), (str ''stream_id'', JStr (str ''abc''))])))
               (post_json (str ''/ai/stream/start'') (JObj [])) = Inr r \<and> ok r)
   \<and> (\<exists>e. fst (startLivepeerStream
                  (example_env 200 ''r'' (Some (JObj [(str ''whep_url'', JStr (str ''u''))])))
                  JUndefined (example_state None)) = Inl e)
   \<and> livepeerStreamId (snd (startLivepeerStream
          (example_env 200 ''r'' (Some (JObj [(str ''whep_url'', JStr (str ''u'')), (str ''stream_id'', JStr (str ''abc''))])))
          JUndefined (example_state None))) = None"
proof -
  let ?v = "JObj [(str ''whep_url'', JStr (str ''u'')), (str ''stream_id'', JStr (str ''abc''))]"
  let ?v2 = "JObj [(str ''whep_url'', JStr (str ''u''))]"
  have neq: "str ''whep_url'' \<noteq> str ''stream_id''" "str ''u'' \<noteq> []" "str ''abc'' \<noteq> []"
    by (simp_all add: str_def)
  have a: "fst (startLivepeerStream (example_env 200 ''r'' (Some ?v)) JUndefined (example_state None)) = Inr ?v"
    using neq by (simp add: startLivepeerStream_def example_env_def Let_def ok_def)
  have f2: "fetch (example_env 200 ''r'' (Some ?v2)) (post_json (str ''/ai/stream/start'') (JObj []))
            = Inr \<lparr>status = 200, statusText = str ''X'', body_text = str ''r''\<rparr>"
    by (simp add: example_env_def)
  have p2: "JSON_parse (example_env 200 ''r'' (Some ?v2)) (str ''r'') = Some ?v2"
    by (simp add: example_env_def)
  have m2: "\<not> (truthy (opt_member ?v2 (str ''whep_url'')) \<and> truthy (opt_member ?v2 (str ''stream_id'')))"
    using neq by simp
  note t1 = startLivepeerStream_validates [of "example_env 200 ''r'' (Some ?v)" JUndefined "example_state None"]
  note t2 = startLivepeerStream_validates [of "example_env 200 ''r'' (Some ?v2)" JUndefined "example_state None"]
  from t1 a have b: "\<exists>r. fetch (example_env 200 ''r'' (Some ?v)) (post_json (str ''/ai/stream/start'') (JObj [])) = Inr r \<and> ok r"
    by auto
  from t2 f2 p2 m2 have c: "\<exists>e. fst (startLivepeerStream (example_env 200 ''r'' (Some ?v2)) JUndefined (example_state None)) = Inl e"
    by auto
  from t1 have d: "livepeerStreamId (snd (startLivepeerStream (example_env 200 ''r'' (Some ?v)) JUndefined (example_state None))) = None"
    by (simp add: example_state_def)
  from a b c d show ?thesis by blast
qed

lemma backend_fetch_result:
  "fetch E req = Inr r \<Longrightarrow>
   fst (backend_fetch E label req s)
     = (if ok r then (case JSON_parse E (body_text r) of Some v \<Rightarrow> Inr v | None \<Rightarrow> Inl SyntaxError)
        else Inl (Error (failure_message label r)))"
  by (simp add: backend_fetch_def Let_def split: option.splits)

lemma startLivepeerStream_result:
  "fetch E (post_json (str ''/ai/stream/start'') (if data = JUndefined then JObj [] else data)) = Inr r \<Longrightarrow>
   fst (startLivepeerStream E data s)
     = (if ok r then
          (case JSON_parse E (body_text r) of
             None \<Rightarrow> Inl SyntaxError
           | Some v \<Rightarrow>
               if \<not> truthy (opt_member v (str ''whep_url'')) then
                 Inl (Error (str ''Livepeer stream start response missing whep_url''))
               else if \<not> truthy (opt_member v (str ''stream_id'')) then
                 Inl (Error (str ''Livepeer stream start response missing stream_id''))
               else Inr v)
        else Inl (Error (failure_message (str ''Livepeer stream start failed'') r)))"
  by (simp add: startLivepeerStream_def Let_def split: option.splits)

text \<open>
  Claim C7, as the code has it. Whatever request an API call hands to \<^verbatim>\<open>fetch\<close>, a response
  whose status is outside 200 to 299 makes the call throw a plain Error (the code has no
  other error type) whose one message is the call's label, the status in decimal, the status
  text and the body text as received, joined by \<^verbatim>\<open>: \<close>, a space and \<^verbatim>\<open>: \<close>; this holds for the
  seven eligible calls on the direct path and on the relay path, for the relay-forward
  primitive and for \<^verbatim>\<open>startLivepeerStream\<close>. On an ok status a direct call returns the parsed
  JSON body (SyntaxError when it does not parse); the relay-forward path returns null for an
  empty body, the parsed JSON, or the body text when it does not parse; and
  \<^verbatim>\<open>startLivepeerStream\<close> returns the parsed JSON body only when it has a truthy
  \<^verbatim>\<open>whep_url\<close> and a truthy \<^verbatim>\<open>stream_id\<close>, and throws an Error that names the missing field
  otherwise.
\<close>

theorem non_ok_response_fails:
  assumes "fetch E req = Inr r"
  shows "(\<not> truthy_id (livepeerStreamId s) \<longrightarrow> req = backend_request c \<longrightarrow>
            fst (invoke E c s)
              = (if ok r then (case JSON_parse E (body_text r) of Some v \<Rightarrow> Inr v | None \<Rightarrow> Inl SyntaxError)
                 else Inl (Error (call_label c @ str '': '' @ dec (status r) @ str '' '' @ statusText r
                                  @ str '': '' @ body_text r))))
       \<and> (encodeURIComponent sid = Inr enc \<longrightarrow> req = relay_update_request enc route payload \<longrightarrow>
            fst (forwardLivepeerRequest E sid route payload s)
              = (if ok r then
                   (if body_text r = [] then Inr JNull
                    else (case JSON_parse E (body_text r) of Some v \<Rightarrow> Inr v | None \<Rightarrow> Inr (JStr (body_text r))))
                 else Inl (Error (str ''Livepeer update failed'' @ str '': '' @ dec (status r) @ str '' ''
                                  @ statusText r @ str '': '' @ body_text r))))
       \<and> (livepeerStreamId s = Some sid \<longrightarrow> sid \<noteq> [] \<longrightarrow> encodeURIComponent sid = Inr enc \<longrightarrow>
            req = relay_update_request enc (call_route c) (nullish (call_body c) JNull) \<longrightarrow>
            fst (invoke E c s)
              = (if ok r then
                   (if body_text r = [] then Inr JNull
                    else (case JSON_parse E (body_text r) of Some v \<Rightarrow> Inr v | None \<Rightarrow> Inr (JStr (body_text r))))
                 else Inl (Error (str ''Livepeer update failed'' @ str '': '' @ dec (status r) @ str '' ''
                                  @ statusText r @ str '': '' @ body_text r))))
       \<and> (req = post_json (str ''/ai/stream/start'') (if data = JUndefined then JObj [] else data) \<longrightarrow>
            fst (startLivepeerStream E data s)
              = (if ok r then
                   (case JSON_parse E (body_text r) of
                      None \<Rightarrow> Inl SyntaxError
                    | Some v \<Rightarrow>
                        if \<not> truthy (opt_member v (str ''whep_url'')) then
                          Inl (Error (str ''Livepeer stream start response missing whep_url''))
                        else if \<not> truthy (opt_member v (str ''stream_id'')) then
                          Inl (Error (str ''Livepeer stream start response missing stream_id''))
                        else Inr v)
                 else Inl (Error (str ''Livepeer stream start failed'' @ str '': '' @ dec (status r) @ str '' ''
                                  @ statusText r @ str '': '' @ body_text r))))
       \<and> (ok r = (200 \<le> status r \<and> status r \<le> 299))"
proof -
  have 1: "\<not> truthy_id (livepeerStreamId s) \<longrightarrow> req = backend_request c \<longrightarrow>
            fst (invoke E c s)
              = (if ok r then (case JSON_parse E (body_text r) of Some v \<Rightarrow> Inr v | None \<Rightarrow> Inl SyntaxError)
                 else Inl (Error (call_label c @ str '': '' @ dec (status r) @ str '' '' @ statusText r
                                  @ str '': '' @ body_text r)))"
    using assms by (auto simp add: direct backend_fetch_result failure_message_def)
  have 2: "encodeURIComponent sid = Inr enc \<longrightarrow> req = relay_update_request enc route payload \<longrightarrow>
            fst (forwardLivepeerRequest E sid route payload s)
              = (if ok r then
                   (if body_text r = [] then Inr JNull
                    else (case JSON_parse E (body_text r) of Some v \<Rightarrow> Inr v | None \<Rightarrow> Inr (JStr (body_text r))))
                 else Inl (Error (str ''Livepeer update failed'' @ str '': '' @ dec (status r) @ str '' ''
                                  @ statusText r @ str '': '' @ body_text r)))" for route payload
    using assms by (auto simp add: forward_result failure_message_def)
  have 3: "livepeerStreamId s = Some sid \<longrightarrow> sid \<noteq> [] \<longrightarrow> encodeURIComponent sid = Inr enc \<longrightarrow>
            req = relay_update_request enc (call_route c) (nullish (call_body c) JNull) \<longrightarrow>
            fst (invoke E c s)
              = (if ok r then
                   (if body_text r = [] then Inr JNull
                    else (case JSON_parse E (body_text r) of Some v \<Rightarrow> Inr v | None \<Rightarrow> Inr (JStr (body_text r))))
                 else Inl (Error (str ''Livepeer update failed'' @ str '': '' @ dec (status r) @ str '' ''
                                  @ statusText r @ str '': '' @ body_text r)))"
    using 2 [of "call_route c" "nullish (call_body c) JNull"] by (auto simp add: routed)
  have 4: "req = post_json (str ''/ai/stream/start'') (if data = JUndefined then JObj [] else data) \<longrightarrow>
            fst (startLivepeerStream E data s)
              = (if ok r then
                   (case JSON_parse E (body_text r) of
                      None \<Rightarrow> Inl SyntaxError
                    | Some v \<Rightarrow>
                        if \<not> truthy (opt_member v (str ''whep_url'')) then
                          Inl (Error (str ''Livepeer stream start response missing whep_url''))
                        else if \<not> truthy (opt_member v (str ''stream_id'')) then
                          Inl (Error (str ''Livepeer stream start response missing stream_id''))
                        else Inr v)
                 else Inl (Error (str ''Livepeer stream start failed'' @ str '': '' @ dec (status r) @ str '' ''
                                  @ statusText r @ str '': '' @ body_text r)))"
  proof
    assume q: "req = post_json (str ''/ai/stream/start'') (if data = JUndefined then JObj [] else data)"
    show "fst (startLivepeerStream E data s)
              = (if ok r then
                   (case JSON_parse E (body_text r) of
                      None \<Rightarrow> Inl SyntaxError
                    | Some v \<Rightarrow>
                        if \<not> truthy (opt_member v (str ''whep_url'')) then
                          Inl (Error (str ''Livepeer stream start response missing whep_url''))
                        else if \<not> truthy (opt_member v (str ''stream_id'')) then
                          Inl (Error (str ''Livepeer stream start response missing stream_id''))
                        else Inr v)
                 else Inl (Error (str ''Livepeer stream start failed'' @ str '': '' @ dec (status r) @ str '' ''
                                  @ statusText r @ str '': '' @ body_text r)))"
      using startLivepeerStream_result [of E data r s] assms q
      by (simp add: failure_message_def)
  qed
  have 5: "ok r = (200 \<le> status r \<and> status r \<le> 299)"
    by (simp add: ok_def)
  from 1 2 3 4 5 show ?thesis by blast
qed

text \<open>
  A 503 answer with body \<^verbatim>\<open>down\<close>: the messages of \<^verbatim>\<open>getPipelineStatus\<close> and of
  \<^verbatim>\<open>startLivepeerStream\<close>; a 200 answer with an empty object is returned parsed.
\<close>

theorem non_ok_response_fails_witness:
  "fetch (example_env 503 ''down'' None) (backend_request GetPipelineStatus)
     = Inr \<lparr>status = 503, statusText = str ''X'', body_text = str ''down''\<rparr>
   \<and> fst (invoke (example_env 503 ''down'' None) GetPipelineStatus (example_state None))
     = Inl (Error (str ''Pipeline status failed: 503 X: down''))
   \<and> fst (startLivepeerStream (example_env 503 ''down'' None) JUndefined (example_state None))
     = Inl (Error (str ''Livepeer stream start failed: 503 X: down''))
   \<and> fetch (example_env 200 ''{}'' (Some (JObj []))) (backend_request GetPipelineStatus)
     = Inr \<lparr>status = 200, statusText = str ''X'', body_text = str ''{}''\<rparr>
   \<and> fst (invoke (example_env 200 ''{}'' (Some (JObj []))) GetPipelineStatus (example_state None))
     = Inr (JObj [])"
proof -
  let ?E = "example_env 503 ''down'' None"
  let ?r = "\<lparr>status = 503, statusText = str ''X'', body_text = str ''down''\<rparr>"
  have f: "fetch ?E req = Inr ?r" for req
    by (simp add: example_env_def)
  have d: "dec 503 = str ''503''"
    by (simp add: dec.simps str_def)
  have nok: "\<not> ok ?r"
    by (simp add: ok_def)
  have t: "\<not> truthy_id (livepeerStreamId (example_state None))"
    by (simp add: truthy_id_def example_state_def)
  have m1: "str ''Pipeline status failed'' @ str '': '' @ dec 503 @ str '' '' @ str ''X'' @ str '': '' @ str ''down''
            = str ''Pipeline status failed: 503 X: down''"
    by (simp add: d) (simp add: str_def)
  have m2: "str ''Livepeer stream start failed'' @ str '': '' @ dec 503 @ str '' '' @ str ''X'' @ str '': '' @ str ''down''
            = str ''Livepeer stream start failed: 503 X: down''"
    by (simp add: d) (simp add: str_def)
  note th1 = non_ok_response_fails [OF f [of "backend_request GetPipelineStatus"],
      of "example_state None" GetPipelineStatus "[]" "[]" "[]" JNull JUndefined]
  note th2 = non_ok_response_fails [OF f [of "post_json (str ''/ai/stream/start'') (JObj [])"],
      of "example_state None" GetPipelineStatus "[]" "[]" "[]" JNull JUndefined]
  from th1 t nok have a: "fst (invoke ?E GetPipelineStatus (example_state None))
     = Inl (Error (str ''Pipeline status failed: 503 X: down''))"
    by (simp add: m1)
  from th2 nok have b: "fst (startLivepeerStream ?E JUndefined (example_state None))
     = Inl (Error (str ''Livepeer stream start failed: 503 X: down''))"
    by (simp add: m2)
  let ?E2 = "example_env 200 ''{}'' (Some (JObj []))"
  let ?r2 = "\<lparr>status = 200, statusText = str ''X'', body_text = str ''{}''\<rparr>"
  have f2: "fetch ?E2 req = Inr ?r2" for req
    by (simp add: example_env_def)
  have ok2: "ok ?r2"
    by (simp add: ok_def)
  have p2: "JSON_parse ?E2 (str ''{}'') = Some (JObj [])"
    by (simp add: example_env_def)
  note th3 = non_ok_response_fails [OF f2 [of "backend_request GetPipelineStatus"],
      of "example_state None" GetPipelineStatus "[]" "[]" "[]" JNull JUndefined]
  from th3 t ok2 have c: "fst (invoke ?E2 GetPipelineStatus (example_state None)) = Inr (JObj [])"
    by (simp add: p2)
  from f a b f2 c show ?thesis by blast
qed

text \<open>
  Claim C7 as stated, an error that carries the status text and the body text: two
  responses that differ in both make \<^verbatim>\<open>getHardwareInfo\<close> throw the same Error, so the error
  thrown does not tell them apart; and on a 200 answer whose JSON body has no \<^verbatim>\<open>stream_id\<close>,
  \<^verbatim>\<open>startLivepeerStream\<close> throws where the claim has it return the parsed body.
\<close>

theorem same_message_counterexample:
  "fst (invoke (answering \<lparr>status = 500, statusText = str ''A'', body_text = str ''B: C''\<rparr> ''{}'' None)
          GetHardwareInfo (example_state None))
     = Inl (Error (str ''Hardware info failed: 500 A: B: C''))
   \<and> fst (invoke (answering \<lparr>status = 500, statusText = str ''A: B'', body_text = str ''C''\<rparr> ''{}'' None)
          GetHardwareInfo (example_state None))
     = Inl (Error (str ''Hardware info failed: 500 A: B: C''))
   \<and> str ''A'' \<noteq> str ''A: B''
   \<and> str ''B: C'' \<noteq> str ''C''
   \<and> fst (startLivepeerStream
            (answering \<lparr>status = 200, statusText = str ''OK'', body_text = str ''r''\<rparr> ''r''
               (Some (JObj [(str ''whep_url'', JStr (str ''u''))])))
            JUndefined (example_state None))
     = Inl (Error (str ''Livepeer stream start response missing stream_id''))"
proof -
  have d: "dec 500 = str ''500''"
    by (simp add: dec.simps str_def)
  have m1: "failure_message (str ''Hardware info failed'') \<lparr>status = 500, statusText = str ''A'', body_text = str ''B: C''\<rparr>
            = str ''Hardware info failed: 500 A: B: C''"
    by (simp add: failure_message_def d) (simp add: str_def)
  have m2: "failure_message (str ''Hardware info failed'') \<lparr>status = 500, statusText = str ''A: B'', body_text = str ''C''\<rparr>
            = str ''Hardware info failed: 500 A: B: C''"
    by (simp add: failure_message_def d) (simp add: str_def)
  have 1: "fst (invoke (answering \<lparr>status = 500, statusText = str ''A'', body_text = str ''B: C''\<rparr> ''{}'' None)
          GetHardwareInfo (example_state None))
     = Inl (Error (str ''Hardware info failed: 500 A: B: C''))"
    by (simp add: getHardwareInfo_def withLivepeerRoute_def backend_fetch_def example_state_def
          answering_def Let_def ok_def m1)
  have 2: "fst (invoke (answering \<lparr>status = 500, statusText = str ''A: B'', body_text = str ''C''\<rparr> ''{}'' None)
          GetHardwareInfo (example_state None))
     = Inl (Error (str ''Hardware info failed: 500 A: B: C''))"
    by (simp add: getHardwareInfo_def withLivepeerRoute_def backend_fetch_def example_state_def
          answering_def Let_def ok_def m2)
  have 3: "str ''A'' \<noteq> str ''A: B''" "str ''B: C'' \<noteq> str ''C''"
    by (simp_all add: str_def)
  have n: "str ''whep_url'' \<noteq> str ''stream_id''" "str ''u'' \<noteq> []"
    by (simp_all add: str_def)
  have 4: "fst (startLivepeerStream
            (answering \<lparr>status = 200, statusText = str ''OK'', body_text = str ''r''\<rparr> ''r''
               (Some (JObj [(str ''whep_url'', JStr (str ''u''))])))
            JUndefined (example_state None))
     = Inl (Error (str ''Livepeer stream start response missing stream_id''))"
    using n by (simp add: startLivepeerStream_def answering_def Let_def ok_def)
  from 1 2 3 4 show ?thesis by blast
qed

subsection \<open>The connection-state handler\<close>

lemma onConnectionStateChange_terminal:
  "terminal st \<Longrightarrow>
   onConnectionStateChange True st w
     = w\<lparr>connectionState := st, isConnecting := False, isStreaming := False,
          livepeerStreamIdRef := None, livepeerStreamId := None,
          trace := trace w @ [EvSetStreamId None]\<rparr>"
  by (auto simp add: onConnectionStateChange_def terminal_def setLivepeerStreamId_def Let_def)

lemma onConnectionStateChange_other:
  "\<not> terminal st \<Longrightarrow>
   trace (onConnectionStateChange b st w) = trace w
   \<and> livepeerStreamId (onConnectionStateChange b st w) = livepeerStreamId w
   \<and> livepeerStreamIdRef (onConnectionStateChange b st w) = livepeerStreamIdRef w"
  by (auto simp add: onConnectionStateChange_def terminal_def Let_def)

lemma clears_append: "clears (xs @ ys) = clears xs + clears ys"
  by (simp add: clears_def)

lemma run_clears:
  "clears (trace (run_connection True sts w)) = clears (trace w) + length (filter terminal sts)"
proof (induction sts arbitrary: w)
  case Nil
  then show ?case by simp
next
  case (Cons st sts)
  show ?case
  proof (cases "terminal st")
    case True
    then show ?thesis
      by (simp add: Cons.IH onConnectionStateChange_terminal clears_append) (simp add: clears_def)
  next
    case False
    then show ?thesis
      by (simp add: Cons.IH onConnectionStateChange_other)
  qed
qed

lemma run_id_None:
  "livepeerStreamId w = None \<and> livepeerStreamIdRef w = None \<Longrightarrow>
   livepeerStreamId (run_connection True sts w) = None
   \<and> livepeerStreamIdRef (run_connection True sts w) = None"
proof (induction sts arbitrary: w)
  case Nil
  then show ?case by simp
next
  case (Cons st sts)
  show ?case
  proof (cases "terminal st")
    case True
    then show ?thesis
      by (simp add: onConnectionStateChange_terminal Cons.IH)
  next
    case False
    then show ?thesis
      using Cons.prems by (simp add: onConnectionStateChange_other Cons.IH)
  qed
qed

lemma run_cleared:
  "\<exists>st \<in> set sts. terminal st \<Longrightarrow>
   livepeerStreamId (run_connection True sts w) = None
   \<and> livepeerStreamIdRef (run_connection True sts w) = None"
proof (induction sts arbitrary: w)
  case Nil
  then show ?case by simp
next
  case (Cons st sts)
  show ?case
  proof (cases "terminal st")
    case True
    then show ?thesis
      by (simp add: onConnectionStateChange_terminal run_id_None)
  next
    case False
    then show ?thesis
      using Cons.prems by (simp add: Cons.IH)
  qed
qed

text \<open>
  Claim C3, as the code has it. With relay transport, on a transition to disconnected,
  failed or closed the handler mirrors the state, sets connecting and streaming to false and
  clears the relay stream id in the ref and in the module, with one call of
  \<^verbatim>\<open>setLivepeerStreamId(null)\<close>. Over a run of the connection the id is cleared once for each
  such transition, and it is null in both places after any run that has one.
\<close>

theorem terminal_state_clears_relay_id:
  "(terminal st \<longrightarrow>
      onConnectionStateChange True st w
        = w\<lparr>connectionState := st, isConnecting := False, isStreaming := False,
             livepeerStreamIdRef := None, livepeerStreamId := None,
             trace := trace w @ [EvSetStreamId None]\<rparr>)
   \<and> terminal st = (st = StDisconnected \<or> st = StFailed \<or> st = StClosed)
   \<and> clears (trace (run_connection True sts w)) = clears (trace w) + length (filter terminal sts)
   \<and> ((\<exists>st \<in> set sts. terminal st) \<longrightarrow>
        livepeerStreamId (run_connection True sts w) = None
        \<and> livepeerStreamIdRef (run_connection True sts w) = None)"
  using onConnectionStateChange_terminal [of st w] run_clears [of sts w] run_cleared [of sts w]
  by (simp add: terminal_def)

text \<open>
  A run that connects and then fails clears the id once.
\<close>

theorem terminal_state_clears_relay_id_witness:
  "terminal StFailed
   \<and> isStreaming (onConnectionStateChange True StFailed relay_world) = False
   \<and> isConnecting (onConnectionStateChange True StFailed relay_world) = False
   \<and> livepeerStreamId (onConnectionStateChange True StFailed relay_world) = None
   \<and> livepeerStreamIdRef (onConnectionStateChange True StFailed relay_world) = None
   \<and> clears (trace (run_connection True [StConnecting, StConnected, StFailed] relay_world)) = 1
   \<and> livepeerStreamId (run_connection True [StConnecting, StConnected, StFailed] relay_world) = None"
proof -
  have t: "terminal StFailed" by (simp add: terminal_def)
  have e: "\<exists>st \<in> set [StConnecting, StConnected, StFailed]. terminal st" by (simp add: terminal_def)
  have c: "clears (trace relay_world) = 0" by (simp add: relay_world_def initial_world_def clears_def)
  have n: "length (filter terminal [StConnecting, StConnected, StFailed]) = 1" by (simp add: terminal_def)
  note th1 = terminal_state_clears_relay_id [of StFailed relay_world "[StConnecting, StConnected, StFailed]"]
  from th1 t have 1: "onConnectionStateChange True StFailed relay_world
        = relay_world\<lparr>connectionState := StFailed, isConnecting := False, isStreaming := False,
             livepeerStreamIdRef := None, livepeerStreamId := None,
             trace := trace relay_world @ [EvSetStreamId None]\<rparr>"
    by blast
  from th1 c n have 2: "clears (trace (run_connection True [StConnecting, StConnected, StFailed] relay_world)) = 1"
    by simp
  from th1 e have 3: "livepeerStreamId (run_connection True [StConnecting, StConnected, StFailed] relay_world) = None"
    by blast
  from t 1 2 3 show ?thesis by simp
qed

text \<open>
  Claim C3 as stated, exactly once over any run: a run that disconnects and then fails clears
  the id twice, and a run that only connects never clears it.
\<close>

theorem cleared_twice_counterexample:
  "clears (trace (run_connection True [StConnected, StDisconnected, StFailed] relay_world)) = 2
   \<and> clears (trace (run_connection True [StConnecting, StConnected] relay_world)) = 0"
  by (simp add: relay_world_def initial_world_def onConnectionStateChange_def setLivepeerStreamId_def
        clears_def Let_def)

subsection \<open>Starting and stopping a session\<close>

lemma startLivepeerStream_state:
  "snd (startLivepeerStream E data s)
     = s\<lparr>trace := trace s @ [EvFetch (post_json (str ''/ai/stream/start'') (if data = JUndefined then JObj [] else data))]\<rparr>"
  by (simp add: startLivepeerStream_def Let_def split: sum.splits option.splits)

lemma startLivepeerStream_result_indep:
  "fst (startLivepeerStream E data s) = fst (startLivepeerStream E data s')"
  by (simp add: startLivepeerStream_def Let_def split: sum.splits option.splits)

lemma relay_start_failed:
  assumes "fst (startLivepeerStream E (JObj [(str ''initialParameters'', initialParameters)]) w0) = Inl err"
  shows "relay_start E initialParameters w
           = (Some err,
              w\<lparr>livepeerStreamIdRef := None, livepeerStreamId := None,
                 trace := trace w @ [EvFetch (post_json (str ''/ai/stream/start'')
                                        (JObj [(str ''initialParameters'', initialParameters)])),
                                     EvSetStreamId None]\<rparr>)"
proof -
  let ?d = "JObj [(str ''initialParameters'', initialParameters)]"
  have f: "fst (startLivepeerStream E ?d w) = Inl err"
    using assms startLivepeerStream_result_indep [of E ?d w w0] by simp
  have s: "snd (startLivepeerStream E ?d w)
             = w\<lparr>trace := trace w @ [EvFetch (post_json (str ''/ai/stream/start'') ?d)]\<rparr>"
    by (simp add: startLivepeerStream_state)
  obtain a b where ab: "startLivepeerStream E ?d w = (a, b)"
    by (cases "startLivepeerStream E ?d w")
  with f s have "a = Inl err" "b = w\<lparr>trace := trace w @ [EvFetch (post_json (str ''/ai/stream/start'') ?d)]\<rparr>"
    by simp_all
  with ab show ?thesis
    by (simp add: relay_start_def setLivepeerStreamId_def)
qed

text \<open>
  Claim C6. A start with relay transport, from a hook that is neither connecting nor holding
  a connection, in which the connection object is created and the relay-session request
  fails with \<open>err\<close>: the inner handler clears the relay stream id in the ref and in the
  module and throws \<open>err\<close> again (first equation, for the state \<open>w'\<close> it runs in); the
  outer handler then closes the connection just created and empties the ref, clears the
  relay stream id again, and sets connecting and streaming to false (second equation: the
  whole state after the call).
\<close>

theorem failed_relay_start_teardown:
  assumes "\<not> isConnecting w" and "peerConnectionRef w = None"
    and "rtc_fails E NewPeerConnection = None"
    and "fst (startLivepeerStream E (JObj [(str ''initialParameters'', initialParameters)]) w) = Inl err"
  shows "relay_start E initialParameters w'
           = (Some err,
              w'\<lparr>livepeerStreamIdRef := None, livepeerStreamId := None,
                  trace := trace w' @ [EvFetch (post_json (str ''/ai/stream/start'')
                                          (JObj [(str ''initialParameters'', initialParameters)])),
                                       EvSetStreamId None]\<rparr>)
       \<and> startStream E Livepeer initialParameters stream w
           = w\<lparr>currentStreamRef := stream,
                pcs := pcs w @ [\<lparr>closed = True, senders = []\<rparr>],
                peerConnectionRef := None,
                dataChannelRef := None,
                livepeerStreamIdRef := None,
                livepeerStreamId := None,
                isConnecting := False,
                isStreaming := False,
                trace := trace w @ [EvFetch (post_json (str ''/ai/stream/start'')
                                       (JObj [(str ''initialParameters'', initialParameters)])),
                                    EvSetStreamId None, EvSetStreamId None]\<rparr>"
proof -
  note rs = relay_start_failed [OF assms(4)]
  have "startStream E Livepeer initialParameters stream w
           = w\<lparr>currentStreamRef := stream,
                pcs := pcs w @ [\<lparr>closed = True, senders = []\<rparr>],
                peerConnectionRef := None,
                dataChannelRef := None,
                livepeerStreamIdRef := None,
                livepeerStreamId := None,
                isConnecting := False,
                isStreaming := False,
                trace := trace w @ [EvFetch (post_json (str ''/ai/stream/start'')
                                       (JObj [(str ''initialParameters'', initialParameters)])),
                                    EvSetStreamId None, EvSetStreamId None]\<rparr>"
    using assms(1,2,3)
    by (simp add: startStream_def startStream_try_def transport_setup_def rs startStream_catch_def
          close_pc_def setLivepeerStreamId_def Let_def)
  with rs show ?thesis by simp
qed

text \<open>
  The relay answers the session request with status 500: the start ends with the one
  connection closed, no relay stream id, and the hook neither connecting nor streaming.
\<close>

theorem failed_relay_start_teardown_witness:
  "\<not> isConnecting initial_world
   \<and> peerConnectionRef initial_world = None
   \<and> rtc_fails (example_env 500 ''no'' None) NewPeerConnection = None
   \<and> fst (startLivepeerStream (example_env 500 ''no'' None) (JObj [(str ''initialParameters'', JUndefined)]) initial_world)
       = Inl (Error (str ''Livepeer stream start failed: 500 X: no''))
   \<and> startStream (example_env 500 ''no'' None) Livepeer JUndefined None initial_world
       = initial_world\<lparr>pcs := [\<lparr>closed = True, senders = []\<rparr>],
                       trace := [EvFetch (post_json (str ''/ai/stream/start'')
                                   (JObj [(str ''initialParameters'', JUndefined)])),
                                 EvSetStreamId None, EvSetStreamId None]\<rparr>"
proof -
  let ?E = "example_env 500 ''no'' None"
  have h1: "\<not> isConnecting initial_world" by (simp add: initial_world_def)
  have h2: "peerConnectionRef initial_world = None" by (simp add: initial_world_def)
  have h3: "rtc_fails ?E NewPeerConnection = None" by (simp add: example_env_def)
  have d: "dec 500 = str ''500''"
    by (simp add: dec.simps str_def)
  have m: "failure_message (str ''Livepeer stream start failed'') \<lparr>status = 500, statusText = str ''X'', body_text = str ''no''\<rparr>
           = str ''Livepeer stream start failed: 500 X: no''"
    by (simp add: failure_message_def d) (simp add: str_def)
  have h4: "fst (startLivepeerStream ?E (JObj [(str ''initialParameters'', JUndefined)]) initial_world)
       = Inl (Error (str ''Livepeer stream start failed: 500 X: no''))"
    by (simp add: startLivepeerStream_def example_env_def ok_def Let_def m)
  from failed_relay_start_teardown [OF h1 h2 h3 h4, of initial_world None]
  have "startStream ?E Livepeer JUndefined None initial_world
       = initial_world\<lparr>pcs := [\<lparr>closed = True, senders = []\<rparr>],
                       trace := [EvFetch (post_json (str ''/ai/stream/start'')
                                   (JObj [(str ''initialParameters'', JUndefined)])),
                                 EvSetStreamId None, EvSetStreamId None]\<rparr>"
    by (simp add: initial_world_def)
  with h1 h2 h3 h4 show ?thesis by blast
qed

lemma stopStream_effect:
  "stopStream w
     = (case peerConnectionRef w of Some pc \<Rightarrow> close_pc pc w | None \<Rightarrow> w)
         \<lparr>peerConnectionRef := None, dataChannelRef := None, currentStreamRef := None,
          livepeerStreamIdRef := None, livepeerStreamId := None,
          trace := trace w @ [EvSetStreamId None],
          remoteStream := None, connectionState := StNew, isStreaming := False\<rparr>"
  by (simp add: stopStream_def setLivepeerStreamId_def close_pc_def Let_def split: option.splits)

lemma stopStream_isConnecting: "isConnecting (stopStream w) = isConnecting w"
  by (simp add: stopStream_effect close_pc_def split: option.splits)

text \<open>
  Claim C9 at a hook that is stopped while it connects: \<^verbatim>\<open>stopStream\<close> closes the connection,
  empties the refs, clears the relay stream id and resets the connection state and the
  streaming flag, and leaves \<open>isConnecting\<close> true; a later \<^verbatim>\<open>startStream\<close> is then refused
  by its guard.
\<close>

theorem stopStream_keeps_connecting:
  "isConnecting connecting_world = True
   \<and> stopStream connecting_world
       = initial_world\<lparr>isConnecting := True,
                       pcs := [\<lparr>closed = True, senders = [None]\<rparr>],
                       trace := [EvSetStreamId None]\<rparr>
   \<and> isConnecting (stopStream connecting_world) = True
   \<and> startStream E parameterTransport initialParameters stream (stopStream connecting_world)
       = stopStream connecting_world"
proof -
  have 1: "stopStream connecting_world
       = initial_world\<lparr>isConnecting := True,
                       pcs := [\<lparr>closed = True, senders = [None]\<rparr>],
                       trace := [EvSetStreamId None]\<rparr>"
    by (simp add: stopStream_effect connecting_world_def initial_world_def close_pc_def)
  have 2: "isConnecting (stopStream connecting_world) = True"
    by (simp add: stopStream_isConnecting connecting_world_def)
  have 3: "startStream E parameterTransport initialParameters stream (stopStream connecting_world)
       = stopStream connecting_world"
    using 2 by (simp add: startStream_def)
  have 0: "isConnecting connecting_world = True"
    by (simp add: connecting_world_def)
  from 0 1 2 3 show ?thesis by blast
qed

lemma one_live_iff:
  "one_live w = (\<forall>i < length (pcs w). map closed (pcs w) ! i \<or> peerConnectionRef w = Some i)"
  by (auto simp add: one_live_def list_all_iff)

lemma relay_start_frame:
  "pcs (snd (relay_start E ip w)) = pcs w
   \<and> peerConnectionRef (snd (relay_start E ip w)) = peerConnectionRef w"
proof -
  let ?d = "JObj [(str ''initialParameters'', ip)]"
  obtain a b where ab: "startLivepeerStream E ?d w = (a, b)"
    by (cases "startLivepeerStream E ?d w")
  then have "b = snd (startLivepeerStream E ?d w)" by simp
  then have b: "pcs b = pcs w \<and> peerConnectionRef b = peerConnectionRef w"
    by (simp add: startLivepeerStream_state)
  show ?thesis
    using ab b by (cases a) (simp_all add: relay_start_def setLivepeerStreamId_def)
qed

lemma transport_setup_frame:
  "pcs (snd (transport_setup E t ip w)) = pcs w
   \<and> peerConnectionRef (snd (transport_setup E t ip w)) = peerConnectionRef w"
  using relay_start_frame [of E ip "w\<lparr>dataChannelRef := None\<rparr>"]
  by (simp add: transport_setup_def split: option.splits)

lemma add_senders_frame:
  "map closed (pcs (add_senders i ss w)) = map closed (pcs w)
   \<and> peerConnectionRef (add_senders i ss w) = peerConnectionRef w"
  by (simp add: add_senders_def map_update list_update_same_conv)

lemma media_setup_frame:
  "map closed (pcs (snd (media_setup E stream pc w))) = map closed (pcs w)
   \<and> peerConnectionRef (snd (media_setup E stream pc w)) = peerConnectionRef w"
  by (simp add: media_setup_def add_senders_frame split: option.splits)

lemma negotiate_frame: "snd (negotiate E w) = w"
  by (simp add: negotiate_def split: option.splits)

lemma startStream_try_shape:
  assumes "startStream_try E t ip stream w0 = (r, w')"
  shows "(map closed (pcs w') = map closed (pcs w0) \<and> peerConnectionRef w' = peerConnectionRef w0 \<and> r \<noteq> None)
         \<or> (map closed (pcs w') = map closed (pcs w0) @ [False]
             \<and> peerConnectionRef w' = Some (length (pcs w0)))"
proof (cases "rtc_fails E NewPeerConnection")
  case (Some e)
  with assms have "r = Some e" and "w' = (if t \<noteq> Livepeer then setLivepeerStreamId None (w0\<lparr>livepeerStreamIdRef := None\<rparr>) else w0)
               \<lparr>currentStreamRef := stream\<rparr>"
    by (simp_all add: startStream_try_def Let_def)
  then show ?thesis
    by (simp add: setLivepeerStreamId_def)
next
  case None
  define w2 where "w2 = (if t \<noteq> Livepeer then setLivepeerStreamId None (w0\<lparr>livepeerStreamIdRef := None\<rparr>) else w0)
               \<lparr>currentStreamRef := stream\<rparr>"
  define w3 where "w3 = w2\<lparr>pcs := pcs w2 @ [\<lparr>closed = False, senders = []\<rparr>],
                           peerConnectionRef := Some (length (pcs w2))\<rparr>"
  have w2: "pcs w2 = pcs w0"
    by (simp add: w2_def setLivepeerStreamId_def)
  have unfold: "startStream_try E t ip stream w0
          = (case transport_setup E t ip w3 of
               (Some e, w4) \<Rightarrow> (Some e, w4)
             | (None, w4) \<Rightarrow>
                 (case media_setup E stream (length (pcs w2)) w4 of
                    (Some e, w5) \<Rightarrow> (Some e, w5)
                  | (None, w5) \<Rightarrow> negotiate E w5))"
    unfolding startStream_try_def Let_def w2_def w3_def None by simp
  obtain r4 w4 where s4: "transport_setup E t ip w3 = (r4, w4)"
    by (cases "transport_setup E t ip w3")
  then have "w4 = snd (transport_setup E t ip w3)" by simp
  then have f4: "pcs w4 = pcs w0 @ [\<lparr>closed = False, senders = []\<rparr>] \<and> peerConnectionRef w4 = Some (length (pcs w0))"
    using transport_setup_frame [of E t ip w3] w2 by (simp add: w3_def)
  obtain r5 w5 where s5: "media_setup E stream (length (pcs w2)) w4 = (r5, w5)"
    by (cases "media_setup E stream (length (pcs w2)) w4")
  then have "w5 = snd (media_setup E stream (length (pcs w2)) w4)" by simp
  then have f5: "map closed (pcs w5) = map closed (pcs w0) @ [False] \<and> peerConnectionRef w5 = Some (length (pcs w0))"
    using media_setup_frame [of E stream "length (pcs w2)" w4] f4 by simp
  obtain r6 w6 where s6: "negotiate E w5 = (r6, w6)"
    by (cases "negotiate E w5")
  then have "w6 = snd (negotiate E w5)" by simp
  then have f6: "w6 = w5"
    by (simp add: negotiate_frame)
  have "startStream_try E t ip stream w0
          = (case r4 of Some e \<Rightarrow> (Some e, w4)
             | None \<Rightarrow> (case r5 of Some e \<Rightarrow> (Some e, w5) | None \<Rightarrow> (r6, w6)))"
    by (simp add: unfold s4 s5 s6 split: option.splits)
  with assms have "w' = w4 \<or> w' = w5 \<or> w' = w6"
    by (auto split: option.splits)
  with f4 f5 f6 show ?thesis by auto
qed

lemma startStream_catch_closes:
  "peerConnectionRef (startStream_catch w) = None
   \<and> map closed (pcs (startStream_catch w))
       = (case peerConnectionRef w of Some pc \<Rightarrow> (map closed (pcs w))[pc := True] | None \<Rightarrow> map closed (pcs w))"
  by (simp add: startStream_catch_def close_pc_def setLivepeerStreamId_def Let_def map_update
        list_update_beyond split: option.splits)

lemma startStream_one_live:
  assumes "one_live w"
  shows "one_live (startStream E t ip stream w)"
proof (cases "isConnecting w \<or> peerConnectionRef w \<noteq> None")
  case True
  with assms show ?thesis by (simp add: startStream_def)
next
  case False
  then have ref: "peerConnectionRef w = None" by simp
  let ?w0 = "w\<lparr>isConnecting := True\<rparr>"
  have all_closed: "\<forall>i < length (pcs w). map closed (pcs w) ! i"
    using assms ref by (simp add: one_live_iff)
  obtain r w' where tr: "startStream_try E t ip stream ?w0 = (r, w')"
    by (cases "startStream_try E t ip stream ?w0")
  from startStream_try_shape [OF tr]
  consider (unchanged) "map closed (pcs w') = map closed (pcs w)" "peerConnectionRef w' = None" "r \<noteq> None"
    | (created) "map closed (pcs w') = map closed (pcs w) @ [False]" "peerConnectionRef w' = Some (length (pcs w))"
    using ref by auto
  then show ?thesis
  proof cases
    case unchanged
    then obtain e where r: "r = Some e" by auto
    have res: "startStream E t ip stream w = startStream_catch w'"
      using False tr r by (simp add: startStream_def)
    have len: "length (pcs (startStream_catch w')) = length (pcs w)"
      using startStream_catch_closes [of w'] unchanged
      by (metis length_map option.simps(4))
    have "map closed (pcs (startStream_catch w')) = map closed (pcs w)"
      using startStream_catch_closes [of w'] unchanged by simp
    with all_closed len show ?thesis
      by (simp add: res one_live_iff)
  next
    case created
    have len': "length (pcs w') = Suc (length (pcs w))"
      using created(1) by (metis length_append_singleton length_map)
    show ?thesis
    proof (cases r)
      case None
      then have res: "startStream E t ip stream w = w'"
        using False tr by (simp add: startStream_def)
      have "\<forall>i < length (pcs w'). map closed (pcs w') ! i \<or> peerConnectionRef w' = Some i"
        using all_closed created len' by (auto simp add: nth_append less_Suc_eq)
      then show ?thesis
        by (simp add: res one_live_iff)
    next
      case (Some e)
      then have res: "startStream E t ip stream w = startStream_catch w'"
        using False tr by (simp add: startStream_def)
      have "(map closed (pcs w) @ [False])[length (map closed (pcs w)) := True] = map closed (pcs w) @ [True]"
        by (rule list_update_length)
      then have fl: "map closed (pcs (startStream_catch w')) = map closed (pcs w) @ [True]"
        using startStream_catch_closes [of w'] created by simp
      then have len: "length (pcs (startStream_catch w')) = Suc (length (pcs w))"
        by (metis length_append_singleton length_map)
      have "\<forall>i < length (pcs (startStream_catch w')). map closed (pcs (startStream_catch w')) ! i"
        using all_closed fl len by (auto simp add: nth_append less_Suc_eq)
      then show ?thesis
        by (simp add: res one_live_iff)
    qed
  qed
qed

text \<open>
  Claim C4. A call of \<^verbatim>\<open>startStream\<close> on a hook that is connecting, or whose ref holds a peer
  connection, returns at once: the whole state is as before, so no hook state changes, no
  connection is created and no effect happens. And every call of \<^verbatim>\<open>startStream\<close>, guarded
  or not, failing or not, keeps the invariant that at most one peer connection is live.
\<close>

theorem startStream_guard:
  "(isConnecting w \<or> peerConnectionRef w \<noteq> None \<longrightarrow>
      startStream E parameterTransport initialParameters stream w = w)
   \<and> (one_live w \<longrightarrow> one_live (startStream E parameterTransport initialParameters stream w))"
  using startStream_one_live [of w E parameterTransport initialParameters stream]
  by (simp add: startStream_def)

text \<open>
  A second start while connecting changes nothing; a first start from the initial state
  leaves at most one live connection.
\<close>

theorem startStream_guard_witness:
  "(isConnecting connecting_world \<or> peerConnectionRef connecting_world \<noteq> None)
   \<and> one_live connecting_world
   \<and> startStream (example_env 200 ''{}'' None) Livepeer JUndefined None connecting_world = connecting_world
   \<and> one_live (startStream (example_env 200 ''{}'' None) Livepeer JUndefined None connecting_world)
   \<and> one_live initial_world
   \<and> one_live (startStream (example_env 200 ''{}'' None) Webrtc JUndefined None initial_world)"
proof -
  have g: "isConnecting connecting_world \<or> peerConnectionRef connecting_world \<noteq> None"
    by (simp add: connecting_world_def)
  have o: "one_live connecting_world"
    by (simp add: connecting_world_def initial_world_def one_live_def)
  have o0: "one_live initial_world"
    by (simp add: initial_world_def one_live_def)
  note th = startStream_guard [of connecting_world "example_env 200 ''{}'' None" Livepeer JUndefined None]
  note th0 = startStream_guard [of initial_world "example_env 200 ''{}'' None" Webrtc JUndefined None]
  from th g have 1: "startStream (example_env 200 ''{}'' None) Livepeer JUndefined None connecting_world = connecting_world"
    by blast
  from th o have 2: "one_live (startStream (example_env 200 ''{}'' None) Livepeer JUndefined None connecting_world)"
    by blast
  from th0 o0 have 3: "one_live (startStream (example_env 200 ''{}'' None) Webrtc JUndefined None initial_world)"
    by blast
  from g o 1 2 o0 3 show ?thesis by blast
qed

subsection \<open>Track replacement and parameter updates\<close>

lemma find_video_sender_None:
  "(find_video_sender ss = None) = (\<forall>s \<in> set ss. \<not> is_video_sender s)"
  by (induction ss) (auto simp add: is_video_sender_def split: option.splits)

lemma find_video_sender_Some:
  "find_video_sender ss = Some i \<Longrightarrow>
   i < length ss \<and> is_video_sender (ss ! i) \<and> (\<forall>j < i. \<not> is_video_sender (ss ! j))"
proof (induction ss arbitrary: i)
  case Nil
  then show ?case by simp
next
  case (Cons s ss)
  show ?case
  proof (cases "is_video_sender s")
    case True
    with Cons.prems have "i = 0"
      by (auto simp add: is_video_sender_def split: option.splits)
    with True show ?thesis by simp
  next
    case False
    with Cons.prems obtain k where k: "find_video_sender ss = Some k" "i = Suc k"
      by (auto simp add: is_video_sender_def split: option.splits if_splits)
    from Cons.IH [OF k(1)] False k(2) show ?thesis
      by (auto simp add: nth_Cons split: nat.splits)
  qed
qed

text \<open>
  Claim C8, as the code has it. \<^verbatim>\<open>updateVideoTrack\<close> returns false and leaves the state as it
  was when the hook is not streaming, when the new stream has no video track, when the ref
  holds no connection, or when no sender of the connection carries a video track. Otherwise
  it calls \<^verbatim>\<open>replaceTrack\<close> on the first sender that carries a video track, with the first video
  track of the new stream: when that call succeeds the sender carries the new track, the
  new stream is recorded in \<^verbatim>\<open>currentStreamRef\<close>, nothing else changes and the result is true;
  when it throws, the result is false and the state is as it was.
\<close>

theorem updateVideoTrack_result:
  "(\<not> isStreaming w \<or> getVideoTracks newStream = [] \<or> peerConnectionRef w = None
      \<or> (\<exists>pc. peerConnectionRef w = Some pc \<and> (\<forall>s \<in> set (senders_of w pc). \<not> is_video_sender s)) \<longrightarrow>
      updateVideoTrack E newStream w = (False, w))
   \<and> (isStreaming w \<and> getVideoTracks newStream = videoTrack # rest \<and> peerConnectionRef w = Some pc
        \<and> (\<exists>s \<in> set (senders_of w pc). is_video_sender s) \<longrightarrow>
        (\<exists>i. i < length (senders_of w pc) \<and> is_video_sender (senders_of w pc ! i)
            \<and> (\<forall>j < i. \<not> is_video_sender (senders_of w pc ! j))
            \<and> updateVideoTrack E newStream w
                = (case rtc_fails E ReplaceTrack of
                     None \<Rightarrow>
                       (True,
                        w\<lparr>pcs := (pcs w)[pc := (pcs w ! pc)\<lparr>senders := (senders (pcs w ! pc))[i := Some videoTrack]\<rparr>],
                          currentStreamRef := Some newStream\<rparr>)
                   | Some e \<Rightarrow> (False, w))))
   \<and> is_video_sender s = (\<exists>t. s = Some t \<and> kind t = Video)"
proof -
  have 1: "\<not> isStreaming w \<or> getVideoTracks newStream = [] \<or> peerConnectionRef w = None
      \<or> (\<exists>pc. peerConnectionRef w = Some pc \<and> (\<forall>s \<in> set (senders_of w pc). \<not> is_video_sender s)) \<longrightarrow>
      updateVideoTrack E newStream w = (False, w)"
  proof -
    have n: "find_video_sender (senders_of w pc) = None"
      if "\<forall>s \<in> set (senders_of w pc). \<not> is_video_sender s" for pc
      using that by (simp add: find_video_sender_None)
    show ?thesis
      by (auto simp add: updateVideoTrack_def n split: option.splits list.splits)
  qed
  have 2: "isStreaming w \<and> getVideoTracks newStream = videoTrack # rest \<and> peerConnectionRef w = Some pc
        \<and> (\<exists>s \<in> set (senders_of w pc). is_video_sender s) \<longrightarrow>
        (\<exists>i. i < length (senders_of w pc) \<and> is_video_sender (senders_of w pc ! i)
            \<and> (\<forall>j < i. \<not> is_video_sender (senders_of w pc ! j))
            \<and> updateVideoTrack E newStream w
                = (case rtc_fails E ReplaceTrack of
                     None \<Rightarrow>
                       (True,
                        w\<lparr>pcs := (pcs w)[pc := (pcs w ! pc)\<lparr>senders := (senders (pcs w ! pc))[i := Some videoTrack]\<rparr>],
                          currentStreamRef := Some newStream\<rparr>)
                   | Some e \<Rightarrow> (False, w)))"
  proof
    assume a: "isStreaming w \<and> getVideoTracks newStream = videoTrack # rest \<and> peerConnectionRef w = Some pc
        \<and> (\<exists>s \<in> set (senders_of w pc). is_video_sender s)"
    then have "find_video_sender (senders_of w pc) \<noteq> None"
      by (simp add: find_video_sender_None)
    then obtain i where i: "find_video_sender (senders_of w pc) = Some i" by auto
    note fs = find_video_sender_Some [OF i]
    have "senders_of w pc \<noteq> []" using fs by auto
    then have pc: "pc < length (pcs w)"
      by (auto simp add: senders_of_def split: if_splits)
    have "updateVideoTrack E newStream w
                = (case rtc_fails E ReplaceTrack of
                     None \<Rightarrow>
                       (True,
                        w\<lparr>pcs := (pcs w)[pc := (pcs w ! pc)\<lparr>senders := (senders (pcs w ! pc))[i := Some videoTrack]\<rparr>],
                          currentStreamRef := Some newStream\<rparr>)
                   | Some e \<Rightarrow> (False, w))"
      using a i pc by (simp add: updateVideoTrack_def replaceTrack_def split: option.splits)
    with fs show "\<exists>i. i < length (senders_of w pc) \<and> is_video_sender (senders_of w pc ! i)
            \<and> (\<forall>j < i. \<not> is_video_sender (senders_of w pc ! j))
            \<and> updateVideoTrack E newStream w
                = (case rtc_fails E ReplaceTrack of
                     None \<Rightarrow>
                       (True,
                        w\<lparr>pcs := (pcs w)[pc := (pcs w ! pc)\<lparr>senders := (senders (pcs w ! pc))[i := Some videoTrack]\<rparr>],
                          currentStreamRef := Some newStream\<rparr>)
                   | Some e \<Rightarrow> (False, w))"
      by blast
  qed
  have 3: "is_video_sender s = (\<exists>t. s = Some t \<and> kind t = Video)"
    by (cases s) (simp_all add: is_video_sender_def)
  from 1 2 3 show ?thesis by blast
qed

text \<open>
  The camera's video track replaces the track of the second sender; on a hook that does not
  stream nothing happens.
\<close>

theorem updateVideoTrack_result_witness:
  "isStreaming streaming_world
   \<and> getVideoTracks camera = [\<lparr>track_id = 3, kind = Video\<rparr>]
   \<and> peerConnectionRef streaming_world = Some 0
   \<and> updateVideoTrack (example_env 200 ''{}'' None) camera streaming_world
       = (True,
          streaming_world\<lparr>pcs := [\<lparr>closed = False, senders = [None, Some \<lparr>track_id = 3, kind = Video\<rparr>]\<rparr>],
                          currentStreamRef := Some camera\<rparr>)
   \<and> updateVideoTrack (example_env 200 ''{}'' None) camera initial_world = (False, initial_world)"
proof -
  let ?E = "example_env 200 ''{}'' None"
  have s: "isStreaming streaming_world"
    by (simp add: streaming_world_def)
  have v: "getVideoTracks camera = [\<lparr>track_id = 3, kind = Video\<rparr>]"
    by (simp add: getVideoTracks_def camera_def)
  have p: "peerConnectionRef streaming_world = Some 0"
    by (simp add: streaming_world_def)
  have so: "senders_of streaming_world 0 = [None, Some \<lparr>track_id = 1, kind = Video\<rparr>]"
    by (simp add: senders_of_def streaming_world_def)
  have ex: "\<exists>s \<in> set (senders_of streaming_world 0). is_video_sender s"
    by (simp add: so is_video_sender_def)
  have rf: "rtc_fails ?E ReplaceTrack = None"
    by (simp add: example_env_def)
  note th = updateVideoTrack_result [where w = streaming_world and newStream = camera
      and videoTrack = "\<lparr>track_id = 3, kind = Video\<rparr>" and rest = "[]" and pc = 0 and E = ?E and s = None]
  from th s v p ex obtain i where i: "i < length (senders_of streaming_world 0)"
      "is_video_sender (senders_of streaming_world 0 ! i)"
      "\<forall>j < i. \<not> is_video_sender (senders_of streaming_world 0 ! j)"
      "updateVideoTrack ?E camera streaming_world
         = (case rtc_fails ?E ReplaceTrack of
              None \<Rightarrow>
                (True,
                 streaming_world\<lparr>pcs := (pcs streaming_world)[0 := (pcs streaming_world ! 0)\<lparr>senders := (senders (pcs streaming_world ! 0))[i := Some \<lparr>track_id = 3, kind = Video\<rparr>]\<rparr>],
                   currentStreamRef := Some camera\<rparr>)
            | Some e \<Rightarrow> (False, streaming_world))"
    by blast
  from i(1,2) have "i = 1"
    by (cases i) (auto simp add: so is_video_sender_def)
  with i(4) rf have a: "updateVideoTrack ?E camera streaming_world
       = (True,
          streaming_world\<lparr>pcs := [\<lparr>closed = False, senders = [None, Some \<lparr>track_id = 3, kind = Video\<rparr>]\<rparr>],
                          currentStreamRef := Some camera\<rparr>)"
    by (simp add: streaming_world_def)
  note th0 = updateVideoTrack_result [where w = initial_world and newStream = camera
      and videoTrack = "\<lparr>track_id = 3, kind = Video\<rparr>" and rest = "[]" and pc = 0 and E = ?E and s = None]
  have "\<not> isStreaming initial_world" by (simp add: initial_world_def)
  with th0 have b: "updateVideoTrack ?E camera initial_world = (False, initial_world)"
    by blast
  from s v p a b show ?thesis by blast
qed

text \<open>
  Claim C8 as stated, true in every other case: the hook streams, the stream has a video
  track and the connection a video sender, \<^verbatim>\<open>replaceTrack\<close> rejects, and the result is false.
\<close>

theorem replaceTrack_rejected_counterexample:
  "isStreaming streaming_world
   \<and> getVideoTracks camera \<noteq> []
   \<and> (\<exists>s \<in> set (senders_of streaming_world 0). \<exists>t. s = Some t \<and> kind t = Video)
   \<and> updateVideoTrack
        ((example_env 200 ''{}'' None)
           \<lparr>rtc_fails := (\<lambda>op. if op = ReplaceTrack then Some (OtherError (str ''InvalidStateError'')) else None)\<rparr>)
        camera streaming_world
       = (False, streaming_world)"
  by (simp add: updateVideoTrack_def streaming_world_def initial_world_def camera_def getVideoTracks_def
        senders_of_def example_env_def)

lemma update_fresh: "k \<notin> fst ` set acc \<Longrightarrow> AList.update k v acc = acc @ [(k, v)]"
  by (induction acc) auto

lemma filter_params_filter:
  "distinct (map fst params) \<Longrightarrow> fst ` set params \<inter> fst ` set acc = {} \<Longrightarrow>
   filter_params params acc = acc @ filter stores params"
proof (induction params arbitrary: acc)
  case Nil
  then show ?case by simp
next
  case (Cons kv params)
  obtain k v where kv: "kv = (k, v)" by (cases kv)
  have dist: "distinct (map fst params)"
    using Cons.prems(1) by simp
  show ?case
  proof (cases "stores kv")
    case True
    have fresh: "k \<notin> fst ` set acc"
      using Cons.prems(2) kv by auto
    have "fst ` set params \<inter> fst ` set (acc @ [(k, v)]) = {}"
      using Cons.prems kv by auto
    with dist have "filter_params params (acc @ [(k, v)]) = (acc @ [(k, v)]) @ filter stores params"
      by (rule Cons.IH)
    moreover have "v \<noteq> JUndefined \<and> v \<noteq> JNull" "k \<noteq> str ''__proto__''" "stores (k, v)"
      using True kv by (simp_all add: stores_def keeps_def)
    ultimately show ?thesis
      using kv fresh by (simp add: update_fresh)
  next
    case False
    have "fst ` set params \<inter> fst ` set acc = {}"
      using Cons.prems(2) by auto
    with dist have ih: "filter_params params acc = acc @ filter stores params"
      by (rule Cons.IH)
    have ns: "\<not> stores (k, v)"
      using False kv by simp
    then have "\<not> (v \<noteq> JUndefined \<and> v \<noteq> JNull) \<or> k = str ''__proto__''"
      by (auto simp add: stores_def keeps_def)
    then show ?thesis
      using ih ns kv by auto
  qed
qed

lemma filter_params_all_absent:
  "\<forall>kv \<in> set params. snd kv = JUndefined \<or> snd kv = JNull \<Longrightarrow> filter_params params acc = acc"
  by (induction params arbitrary: acc) auto

lemma backend_fetch_state:
  "snd (backend_fetch E label req s) = s\<lparr>trace := trace s @ [EvFetch req]\<rparr>"
  by (simp add: backend_fetch_def Let_def split: sum.splits option.splits)

lemma forward_state:
  "snd (forwardLivepeerRequest E sid route payload s)
     = (case encodeURIComponent sid of
          Inl e \<Rightarrow> s
        | Inr enc \<Rightarrow> s\<lparr>trace := trace s @ [EvFetch (relay_update_request enc route payload)]\<rparr>)"
  by (simp add: forwardLivepeerRequest_def Let_def split: sum.splits option.splits)

lemma updatePipelineParameters_state:
  "snd (updatePipelineParameters E (JObj kvs) s)
     = (case livepeerStreamId s of
          None \<Rightarrow> s\<lparr>trace := trace s @ [EvFetch (post_json (str ''/api/v1/pipeline/update'') (JObj kvs))]\<rparr>
        | Some sid \<Rightarrow>
            if sid = [] then
              s\<lparr>trace := trace s @ [EvFetch (post_json (str ''/api/v1/pipeline/update'') (JObj kvs))]\<rparr>
            else (case encodeURIComponent sid of
                    Inl e \<Rightarrow> s
                  | Inr enc \<Rightarrow>
                      s\<lparr>trace := trace s @ [EvFetch (relay_update_request enc (str ''/api/v1/pipeline/update'') (JObj kvs))]\<rparr>))"
  by (simp add: updatePipelineParameters_def withLivepeerRoute_def backend_fetch_state forward_state
        nullish_def split: option.splits)

text \<open>
  Claim C5, as the code has it. When every field of the update is undefined or null,
  \<^verbatim>\<open>sendParameterUpdate\<close> leaves the state as it was in either transport mode: no request, no
  message on the data channel. In general (the keys of an object are distinct) the loop
  stores exactly the fields that are neither undefined nor null, in their order and with
  their values, but for a field named \<^verbatim>\<open>__proto__\<close>. When no field is stored nothing is sent.
  Otherwise the stored fields are sent as they are where the transport is there: on direct
  transport as one message on the data channel when it is open; on relay transport, when the
  hook's ref holds a relay stream id, as the body of one parameter-update request, inside
  the relay's envelope when the module's id is set (nothing when that id does not encode),
  to the backend when it is not. In every other case the state is as it was.
\<close>

theorem sendParameterUpdate_filters:
  "((\<forall>kv \<in> set params. snd kv = JUndefined \<or> snd kv = JNull) \<longrightarrow>
      sendParameterUpdate E parameterTransport params w = w)
   \<and> (distinct (map fst params) \<longrightarrow>
        filter_params params [] = filter stores params
        \<and> sendParameterUpdate E parameterTransport params w
            = (if filter stores params = [] then w
               else if parameterTransport = Livepeer then
                 (if \<not> truthy_id (livepeerStreamIdRef w) then w
                  else (case livepeerStreamId w of
                          None \<Rightarrow>
                            w\<lparr>trace := trace w @ [EvFetch (post_json (str ''/api/v1/pipeline/update'')
                                                           (JObj (filter stores params)))]\<rparr>
                        | Some sid \<Rightarrow>
                            if sid = [] then
                              w\<lparr>trace := trace w @ [EvFetch (post_json (str ''/api/v1/pipeline/update'')
                                                             (JObj (filter stores params)))]\<rparr>
                            else (case encodeURIComponent sid of
                                    Inl e \<Rightarrow> w
                                  | Inr enc \<Rightarrow>
                                      w\<lparr>trace := trace w @
                                          [EvFetch \<lparr>req_method = POST,
                                                    req_url = str ''/ai/stream/'' @ enc @ str ''/update'',
                                                    req_headers = json_headers,
                                                    req_body = Some (JSON_stringify
                                                      (JObj [(str ''route'', JStr (str ''/api/v1/pipeline/update'')),
                                                             (str ''request'', JObj (filter stores params))]))\<rparr>]\<rparr>)))
               else (case dataChannelRef w of
                       None \<Rightarrow> w
                     | Some dc \<Rightarrow>
                         if readyState dc = DcOpen
                         then w\<lparr>trace := trace w @ [EvSend (JSON_stringify (JObj (filter stores params)))]\<rparr>
                         else w)))
   \<and> stores kv = (snd kv \<noteq> JUndefined \<and> snd kv \<noteq> JNull \<and> fst kv \<noteq> str ''__proto__'')
   \<and> truthy_id x = (\<exists>sid. x = Some sid \<and> sid \<noteq> [])"
proof -
  have 1: "(\<forall>kv \<in> set params. snd kv = JUndefined \<or> snd kv = JNull) \<longrightarrow>
      sendParameterUpdate E parameterTransport params w = w"
    by (simp add: sendParameterUpdate_def filter_params_all_absent)
  have 2: "filter_params params [] = filter stores params
        \<and> sendParameterUpdate E parameterTransport params w
            = (if filter stores params = [] then w
               else if parameterTransport = Livepeer then
                 (if \<not> truthy_id (livepeerStreamIdRef w) then w
                  else (case livepeerStreamId w of
                          None \<Rightarrow>
                            w\<lparr>trace := trace w @ [EvFetch (post_json (str ''/api/v1/pipeline/update'')
                                                           (JObj (filter stores params)))]\<rparr>
                        | Some sid \<Rightarrow>
                            if sid = [] then
                              w\<lparr>trace := trace w @ [EvFetch (post_json (str ''/api/v1/pipeline/update'')
                                                             (JObj (filter stores params)))]\<rparr>
                            else (case encodeURIComponent sid of
                                    Inl e \<Rightarrow> w
                                  | Inr enc \<Rightarrow>
                                      w\<lparr>trace := trace w @
                                          [EvFetch \<lparr>req_method = POST,
                                                    req_url = str ''/ai/stream/'' @ enc @ str ''/update'',
                                                    req_headers = json_headers,
                                                    req_body = Some (JSON_stringify
                                                      (JObj [(str ''route'', JStr (str ''/api/v1/pipeline/update'')),
                                                             (str ''request'', JObj (filter stores params))]))\<rparr>]\<rparr>)))
               else (case dataChannelRef w of
                       None \<Rightarrow> w
                     | Some dc \<Rightarrow>
                         if readyState dc = DcOpen
                         then w\<lparr>trace := trace w @ [EvSend (JSON_stringify (JObj (filter stores params)))]\<rparr>
                         else w))"
    if d: "distinct (map fst params)"
  proof -
    have f: "filter_params params [] = filter stores params"
      using filter_params_filter [OF d, of "[]"] by simp
    show ?thesis
      unfolding sendParameterUpdate_def f Let_def updatePipelineParameters_state relay_update_request_def
      by (simp add: f)
  qed
  have 3: "stores kv = (snd kv \<noteq> JUndefined \<and> snd kv \<noteq> JNull \<and> fst kv \<noteq> str ''__proto__'')"
    by (simp add: stores_def keeps_def)
  have 4: "truthy_id x = (\<exists>sid. x = Some sid \<and> sid \<noteq> [])"
    by (cases x) (simp_all add: truthy_id_def)
  from 1 2 3 4 show ?thesis by blast
qed

text \<open>
  An update with absent fields only sends nothing in both modes; of three fields, the two
  that are present go out on the open data channel, and through the relay \<^verbatim>\<open>abc\<close>.
\<close>

theorem sendParameterUpdate_filters_witness:
  "list_all (\<lambda>kv. snd kv = JUndefined \<or> snd kv = JNull) [(str ''paused'', JUndefined), (str ''noise_scale'', JNull)]
   \<and> sendParameterUpdate (example_env 200 ''{}'' None) Webrtc
        [(str ''paused'', JUndefined), (str ''noise_scale'', JNull)] streaming_world = streaming_world
   \<and> sendParameterUpdate (example_env 200 ''{}'' None) Livepeer
        [(str ''paused'', JUndefined), (str ''noise_scale'', JNull)] relay_world = relay_world
   \<and> distinct (map fst [(str ''paused'', JBool True), (str ''noise_scale'', JNull), (str ''reset_cache'', JBool False)])
   \<and> sendParameterUpdate (example_env 200 ''{}'' None) Webrtc
        [(str ''paused'', JBool True), (str ''noise_scale'', JNull), (str ''reset_cache'', JBool False)] streaming_world
       = streaming_world\<lparr>trace := [EvSend (JSON_stringify
            (JObj [(str ''paused'', JBool True), (str ''reset_cache'', JBool False)]))]\<rparr>
   \<and> sendParameterUpdate (example_env 200 ''{}'' None) Livepeer
        [(str ''paused'', JBool True), (str ''noise_scale'', JNull), (str ''reset_cache'', JBool False)] relay_world
       = relay_world\<lparr>trace := [EvFetch \<lparr>req_method = POST,
                                        req_url = str ''/ai/stream/abc/update'',
                                        req_headers = json_headers,
                                        req_body = Some (JSON_stringify
                                          (JObj [(str ''route'', JStr (str ''/api/v1/pipeline/update'')),
                                                 (str ''request'',
                                                  JObj [(str ''paused'', JBool True), (str ''reset_cache'', JBool False)])]))\<rparr>]\<rparr>"
proof -
  let ?E = "example_env 200 ''{}'' None"
  let ?absent = "[(str ''paused'', JUndefined), (str ''noise_scale'', JNull)]"
  let ?some = "[(str ''paused'', JBool True), (str ''noise_scale'', JNull), (str ''reset_cache'', JBool False)]"
  have a: "\<forall>kv \<in> set ?absent. snd kv = JUndefined \<or> snd kv = JNull"
    by simp
  have a': "list_all (\<lambda>kv. snd kv = JUndefined \<or> snd kv = JNull) ?absent"
    by simp
  have d: "distinct (map fst ?some)"
    by (simp add: str_def)
  have k: "filter stores ?some = [(str ''paused'', JBool True), (str ''reset_cache'', JBool False)]"
    by (simp add: stores_def keeps_def) (simp add: str_def)
  have dc: "dataChannelRef streaming_world = Some \<lparr>dc_label = str ''parameters'', readyState = DcOpen\<rparr>"
    by (simp add: streaming_world_def)
  have tr: "trace streaming_world = []"
    by (simp add: streaming_world_def initial_world_def)
  have rw: "trace relay_world = []" "livepeerStreamId relay_world = Some (str ''abc'')"
      "truthy_id (livepeerStreamIdRef relay_world)" "str ''abc'' \<noteq> []"
    by (simp_all add: relay_world_def initial_world_def truthy_id_def str_def)
  have e: "encodeURIComponent (str ''abc'') = Inr (str ''abc'')"
    by code_simp
  have cat: "str ''/ai/stream/'' @ str ''abc'' @ str ''/update'' = str ''/ai/stream/abc/update''"
    by (simp add: str_def)
  from sendParameterUpdate_filters [of ?absent ?E Webrtc streaming_world] a
  have 1: "sendParameterUpdate ?E Webrtc ?absent streaming_world = streaming_world"
    by blast
  from sendParameterUpdate_filters [of ?absent ?E Livepeer relay_world] a
  have 2: "sendParameterUpdate ?E Livepeer ?absent relay_world = relay_world"
    by blast
  note th3 = sendParameterUpdate_filters [of ?some ?E Webrtc streaming_world]
  from th3 d have 3: "sendParameterUpdate ?E Webrtc ?some streaming_world
       = streaming_world\<lparr>trace := [EvSend (JSON_stringify
            (JObj [(str ''paused'', JBool True), (str ''reset_cache'', JBool False)]))]\<rparr>"
    unfolding k by (simp add: dc tr)
  note th4 = sendParameterUpdate_filters [of ?some ?E Livepeer relay_world]
  from th4 d have 4: "sendParameterUpdate ?E Livepeer ?some relay_world
       = relay_world\<lparr>trace := [EvFetch \<lparr>req_method = POST,
                                        req_url = str ''/ai/stream/abc/update'',
                                        req_headers = json_headers,
                                        req_body = Some (JSON_stringify
                                          (JObj [(str ''route'', JStr (str ''/api/v1/pipeline/update'')),
                                                 (str ''request'',
                                                  JObj [(str ''paused'', JBool True), (str ''reset_cache'', JBool False)])]))\<rparr>]\<rparr>"
    unfolding k by (simp add: rw e cat)
  from a' 1 2 d 3 4 show ?thesis by blast
qed

text \<open>
  Claim C5 as stated, the remaining fields are sent: a present field is not sent on direct
  transport without a data channel, nor on relay transport without a relay stream id; and
  a field named \<^verbatim>\<open>__proto__\<close> that is neither undefined nor null is removed as well.
\<close>

theorem update_not_sent_counterexample:
  "keeps (str ''paused'', JBool True)
   \<and> sendParameterUpdate (example_env 200 ''{}'' None) Webrtc [(str ''paused'', JBool True)] initial_world
       = initial_world
   \<and> sendParameterUpdate (example_env 200 ''{}'' None) Livepeer [(str ''paused'', JBool True)] initial_world
       = initial_world
   \<and> keeps (str ''__proto__'', JBool True)
   \<and> sendParameterUpdate (example_env 200 ''{}'' None) Webrtc [(str ''__proto__'', JBool True)] streaming_world
       = streaming_world"
proof -
  have 1: "keeps (str ''paused'', JBool True)" "keeps (str ''__proto__'', JBool True)"
    by (simp_all add: keeps_def)
  have n: "str ''paused'' \<noteq> str ''__proto__''"
    by (simp add: str_def)
  have 2: "sendParameterUpdate (example_env 200 ''{}'' None) Webrtc [(str ''paused'', JBool True)] initial_world
       = initial_world"
    using n by (simp add: sendParameterUpdate_def initial_world_def)
  have 3: "sendParameterUpdate (example_env 200 ''{}'' None) Livepeer [(str ''paused'', JBool True)] initial_world
       = initial_world"
    using n by (simp add: sendParameterUpdate_def initial_world_def truthy_id_def)
  have 4: "sendParameterUpdate (example_env 200 ''{}'' None) Webrtc [(str ''__proto__'', JBool True)] streaming_world
       = streaming_world"
    by (simp add: sendParameterUpdate_def)
  from 1 2 3 4 show ?thesis by blast
qed

end
